theory Spec2Isabelle
  imports Complex_Main "HOL-Library.Word"
begin

section \<open>Python values and exceptions\<close>

text \<open>
  The values that flow through the pipeline are what \<^verbatim>\<open>json.loads\<close> can return:
  \<^verbatim>\<open>None\<close>, booleans, integers, floats, strings, lists and dictionaries with string
  keys. A dictionary is the list of its items in insertion order. Floats are only
  stored, compared with zero and passed on, never computed with; a float is modelled by
  the real number it denotes.
\<close>

datatype pyval =
    PNone
  | PBool bool
  | PInt int
  | PFloat real
  | PStr string
  | PList "pyval list"
  | PDict "(string \<times> pyval) list"

text \<open>
  An exception is its class name and its message (\<^verbatim>\<open>type(e).__name__\<close> and
  \<^verbatim>\<open>str(e)\<close>). \<open>Exn\<close> is an instance of \<^verbatim>\<open>Exception\<close>, as every \<^verbatim>\<open>raise\<close> of the source
  raises. \<open>BaseExn\<close> is an instance of \<^verbatim>\<open>BaseException\<close> that is not an \<^verbatim>\<open>Exception\<close>
  (\<^verbatim>\<open>asyncio.CancelledError\<close> at an \<^verbatim>\<open>await\<close>, \<^verbatim>\<open>KeyboardInterrupt\<close>, \<^verbatim>\<open>SystemExit\<close>):
  \<^verbatim>\<open>except Exception\<close> does not catch it.
\<close>

datatype exn =
    Exn (exn_class: string) (exn_msg: string)
  | BaseExn (exn_class: string) (exn_msg: string)

text \<open>\<^verbatim>\<open>isinstance(error, Exception)\<close>.\<close>

fun is_Exception :: "exn \<Rightarrow> bool" where
  "is_Exception (Exn c m) = True"
| "is_Exception (BaseExn c m) = False"

abbreviation ValueError :: "string \<Rightarrow> exn" where
  "ValueError m \<equiv> Exn ''ValueError'' m"

abbreviation Exception :: "string \<Rightarrow> exn" where
  "Exception m \<equiv> Exn ''Exception'' m"

abbreviation UnicodeDecodeError :: "string \<Rightarrow> exn" where
  "UnicodeDecodeError m \<equiv> Exn ''UnicodeDecodeError'' m"

abbreviation JSONDecodeError :: "string \<Rightarrow> exn" where
  "JSONDecodeError m \<equiv> Exn ''JSONDecodeError'' m"

text \<open>Python truthiness: what \<^verbatim>\<open>not x\<close> tests.\<close>

fun truthy :: "pyval \<Rightarrow> bool" where
  "truthy PNone = False"
| "truthy (PBool b) = b"
| "truthy (PInt n) = (n \<noteq> 0)"
| "truthy (PFloat x) = (x \<noteq> 0)"
| "truthy (PStr s) = (s \<noteq> [])"
| "truthy (PList xs) = (xs \<noteq> [])"
| "truthy (PDict kvs) = (kvs \<noteq> [])"

text \<open>\<^verbatim>\<open>isinstance(x, str)\<close>.\<close>

fun is_str :: "pyval \<Rightarrow> bool" where
  "is_str (PStr s) = True"
| "is_str v = False"

text \<open>\<^verbatim>\<open>type(x).__name__\<close>.\<close>

fun type_name :: "pyval \<Rightarrow> string" where
  "type_name PNone = ''NoneType''"
| "type_name (PBool b) = ''bool''"
| "type_name (PInt n) = ''int''"
| "type_name (PFloat x) = ''float''"
| "type_name (PStr s) = ''str''"
| "type_name (PList xs) = ''list''"
| "type_name (PDict kvs) = ''dict''"

text \<open>
  \<^verbatim>\<open>x.get(key)\<close>: on a dictionary the stored value, or \<^verbatim>\<open>None\<close> when the key is
  missing; any other value has no attribute \<^verbatim>\<open>get\<close>, and the attribute access raises.
\<close>

fun py_get :: "pyval \<Rightarrow> string \<Rightarrow> exn + pyval" where
  "py_get (PDict kvs) k = Inr (case map_of kvs k of None \<Rightarrow> PNone | Some v \<Rightarrow> v)"
| "py_get v k =
     Inl (Exn ''AttributeError''
       ([CHR 0x27] @ type_name v @ [CHR 0x27] @ '' object has no attribute '' @
        [CHR 0x27] @ ''get'' @ [CHR 0x27]))"

text \<open>\<^verbatim>\<open>str(n)\<close> for an integer, used by the f-strings that name a user.\<close>

fun str_nat :: "nat \<Rightarrow> string" where
  "str_nat n =
     (if n < 10 then [char_of (48 + n)]
      else str_nat (n div 10) @ [char_of (48 + n mod 10)])"

declare str_nat.simps [simp del]

definition str_int :: "int \<Rightarrow> string" where
  "str_int i = (if i < 0 then CHR ''-'' # str_nat (nat (- i)) else str_nat (nat i))"

section \<open>Validation stage (\<^verbatim>\<open>TestAgent\<close>)\<close>

text \<open>
  \<^verbatim>\<open>src/agent-service/adk/services/test.py\<close>. The two failure conditions are the two
  exceptions the method raises.
\<close>

definition InvalidData :: exn where
  "InvalidData = Exception ''Invalid Snapchat data: missing totalFollowers''"

definition InvalidInsight :: exn where
  "InvalidInsight = Exception ''Invalid insights: not a string''"

definition TestAgent_run :: "pyval \<Rightarrow> pyval \<Rightarrow> exn + bool" where
  "TestAgent_run snapchat_data insights =
     (if \<not> truthy snapchat_data then Inl InvalidData
      else case py_get snapchat_data ''totalFollowers'' of
        Inl e \<Rightarrow> Inl e
      | Inr total_followers \<Rightarrow>
          if \<not> truthy total_followers then Inl InvalidData
          else if \<not> truthy insights \<or> \<not> is_str insights then Inl InvalidInsight
          else Inr True)"

section \<open>Storage service\<close>

text \<open>
  \<^verbatim>\<open>src/python_agents/services/storage.py\<close>. The three dictionaries of
  \<^verbatim>\<open>StorageService\<close> (\<^verbatim>\<open>_users\<close>, \<^verbatim>\<open>_snapchat_data\<close>, \<^verbatim>\<open>_ai_insights\<close>) are maps.
  Each operation returns its result and the service after the call.
\<close>

record User =
  User_id :: int
  username :: string
  snapchat_client_id :: "string option"
  snapchat_api_key :: "string option"

record StorageService =
  store_users :: "int \<rightharpoonup> User"
  store_snapchat_data :: "int \<rightharpoonup> pyval"
  store_ai_insights :: "int \<rightharpoonup> string"

definition get_user :: "StorageService \<Rightarrow> int \<Rightarrow> User option" where
  "get_user st uid = store_users st uid"

definition save_snapchat_data :: "StorageService \<Rightarrow> int \<Rightarrow> pyval \<Rightarrow> bool \<times> StorageService" where
  "save_snapchat_data st uid d = (True, st\<lparr>store_snapchat_data := (store_snapchat_data st)(uid \<mapsto> d)\<rparr>)"

definition save_ai_insight :: "StorageService \<Rightarrow> int \<Rightarrow> string \<Rightarrow> bool \<times> StorageService" where
  "save_ai_insight st uid insight = (True, st\<lparr>store_ai_insights := (store_ai_insights st)(uid \<mapsto> insight)\<rparr>)"

definition get_snapchat_data :: "StorageService \<Rightarrow> int \<Rightarrow> pyval option" where
  "get_snapchat_data st uid = store_snapchat_data st uid"

definition get_ai_insight :: "StorageService \<Rightarrow> int \<Rightarrow> string option" where
  "get_ai_insight st uid = store_ai_insights st uid"

section \<open>Agents, plugins and hook dispatch\<close>

text \<open>
  \<^verbatim>\<open>src/python_agents/agents/base_agent.py\<close>. A plugin is an object that may or may not
  have each of the three hook methods (\<^verbatim>\<open>hasattr\<close>), so each hook is optional. A hook
  receives the agent (here: its class name, all that a hook of this repository reads) and
  the call's arguments; it runs on the state \<open>'s\<close> of the process and may raise.

  An agent is its class name, the list \<^verbatim>\<open>_plugins\<close> in attachment order, and its \<^verbatim>\<open>run\<close>
  method. A computation returns a result or an exception, the list of events it caused,
  and the new state. The events are the observation log of the model: \<open>execute\<close> records
  each hook call with the plugin's position and the argument passed, the call of \<^verbatim>\<open>run\<close>,
  the events \<^verbatim>\<open>run\<close> itself caused, and how \<open>execute\<close> ended.
\<close>

record ('i, 'o, 's) plugin =
  on_agent_start :: "(string \<Rightarrow> 'i \<Rightarrow> 's \<Rightarrow> (exn + unit) \<times> 's) option"
  on_agent_end :: "(string \<Rightarrow> 'o \<Rightarrow> 's \<Rightarrow> (exn + unit) \<times> 's) option"
  on_agent_error :: "(string \<Rightarrow> exn \<Rightarrow> 's \<Rightarrow> (exn + unit) \<times> 's) option"

datatype ('i, 'o, 'e) event =
    Started nat 'i
  | Ran 'i
  | Inner 'e
  | Ended nat 'o
  | Errored nat exn
  | Returned 'o
  | Raised exn

record ('i, 'o, 's, 'e) Agent =
  class_name :: string
  plugins :: "('i, 'o, 's) plugin list"
  run :: "'i \<Rightarrow> 's \<Rightarrow> (exn + 'o) \<times> 'e list \<times> 's"

text \<open>
  The loop \<^verbatim>\<open>for plugin in self._plugins: if hasattr(plugin, hook): plugin.hook(...)\<close>, over
  the plugins' hooks already applied to the agent and the argument. \<open>k\<close> is the position
  of the current plugin. A hook that raises ends the loop.
\<close>

fun notify ::
  "nat \<Rightarrow> ('s \<Rightarrow> (exn + unit) \<times> 's) option list \<Rightarrow> (nat \<Rightarrow> 'ev) \<Rightarrow> 's
     \<Rightarrow> (exn + unit) \<times> 'ev list \<times> 's" where
  "notify k [] mk s = (Inr (), [], s)"
| "notify k (None # hs) mk s = notify (Suc k) hs mk s"
| "notify k (Some h # hs) mk s =
     (case h s of
        (Inl e, s') \<Rightarrow> (Inl e, [mk k], s')
      | (Inr u, s') \<Rightarrow>
          (case notify (Suc k) hs mk s' of (r, evs, s'') \<Rightarrow> (r, mk k # evs, s'')))"

definition trigger_start ::
  "('i, 'o, 's, 'e) Agent \<Rightarrow> 'i \<Rightarrow> 's \<Rightarrow> (exn + unit) \<times> ('i, 'o, 'e) event list \<times> 's" where
  "trigger_start a args =
     notify 0 (map (\<lambda>p. map_option (\<lambda>h. h (class_name a) args) (on_agent_start p)) (plugins a))
       (\<lambda>k. Started k args)"

definition trigger_end ::
  "('i, 'o, 's, 'e) Agent \<Rightarrow> 'o \<Rightarrow> 's \<Rightarrow> (exn + unit) \<times> ('i, 'o, 'e) event list \<times> 's" where
  "trigger_end a result =
     notify 0 (map (\<lambda>p. map_option (\<lambda>h. h (class_name a) result) (on_agent_end p)) (plugins a))
       (\<lambda>k. Ended k result)"

definition trigger_error ::
  "('i, 'o, 's, 'e) Agent \<Rightarrow> exn \<Rightarrow> 's \<Rightarrow> (exn + unit) \<times> ('i, 'o, 'e) event list \<times> 's" where
  "trigger_error a error =
     notify 0 (map (\<lambda>p. map_option (\<lambda>h. h (class_name a) error) (on_agent_error p)) (plugins a))
       (\<lambda>k. Errored k error)"

text \<open>
  The body of the handler \<^verbatim>\<open>except Exception as error: self._trigger_error(error); raise\<close>,
  entered with the events so far. An exception raised by an error hook leaves the handler
  in place of the one being handled.
\<close>

definition except_handler ::
  "('i, 'o, 's, 'e) Agent \<Rightarrow> exn \<Rightarrow> ('i, 'o, 'e) event list \<Rightarrow> 's
     \<Rightarrow> (exn + 'o) \<times> ('i, 'o, 'e) event list \<times> 's" where
  "except_handler a error evs s =
     (case trigger_error a error s of
        (Inl error', ev4, s4) \<Rightarrow> (Inl error', evs @ ev4 @ [Raised error'], s4)
      | (Inr u, ev4, s4) \<Rightarrow> (Inl error, evs @ ev4 @ [Raised error], s4))"

text \<open>
  The clause \<^verbatim>\<open>except Exception\<close> itself: an exception raised inside the \<^verbatim>\<open>try\<close> enters
  the handler only if it is an instance of \<^verbatim>\<open>Exception\<close>; any other exception leaves
  \<open>execute\<close> at once, and no \<^verbatim>\<open>on_agent_error\<close> hook is called.
\<close>

definition except_Exception ::
  "('i, 'o, 's, 'e) Agent \<Rightarrow> exn \<Rightarrow> ('i, 'o, 'e) event list \<Rightarrow> 's
     \<Rightarrow> (exn + 'o) \<times> ('i, 'o, 'e) event list \<times> 's" where
  "except_Exception a error evs s =
     (if is_Exception error then except_handler a error evs s
      else (Inl error, evs @ [Raised error], s))"

text \<open>\<^verbatim>\<open>Agent.execute\<close>: the whole body is inside the \<^verbatim>\<open>try\<close>.\<close>

definition execute ::
  "('i, 'o, 's, 'e) Agent \<Rightarrow> 'i \<Rightarrow> 's \<Rightarrow> (exn + 'o) \<times> ('i, 'o, 'e) event list \<times> 's" where
  "execute a args s =
     (case trigger_start a args s of
        (Inl error, ev1, s1) \<Rightarrow> except_Exception a error ev1 s1
      | (Inr u, ev1, s1) \<Rightarrow>
          (case run a args s1 of
             (Inl error, ev2, s2) \<Rightarrow>
               except_Exception a error (ev1 @ Ran args # map Inner ev2) s2
           | (Inr result, ev2, s2) \<Rightarrow>
               (case trigger_end a result s2 of
                  (Inl error, ev3, s3) \<Rightarrow>
                    except_Exception a error (ev1 @ Ran args # map Inner ev2 @ ev3) s3
                | (Inr u', ev3, s3) \<Rightarrow>
                    (Inr result, ev1 @ Ran args # map Inner ev2 @ ev3 @ [Returned result], s3))))"

text \<open>The positions, in attachment order, of the plugins that have a given hook.\<close>

definition hook_positions :: "('p \<Rightarrow> 'h option) \<Rightarrow> 'p list \<Rightarrow> nat list" where
  "hook_positions sel ps = filter (\<lambda>k. sel (ps ! k) \<noteq> None) [0..<length ps]"

section \<open>Libraries and surroundings of the process\<close>

text \<open>
  \<^verbatim>\<open>json.dumps\<close>, \<^verbatim>\<open>json.loads\<close>, \<^verbatim>\<open>str.encode\<close> and \<^verbatim>\<open>bytes.decode\<close> are Python's
  standard library, not code of this repository: the model takes them as parameters. A
  decoder returns \<open>Inl\<close> with the exception where the library raises: a
  \<^verbatim>\<open>JSONDecodeError\<close> or \<^verbatim>\<open>UnicodeDecodeError\<close> for content that is not valid, or any other
  exception (\<^verbatim>\<open>json.loads\<close> raises a plain \<^verbatim>\<open>ValueError\<close> for an integer of too many digits
  and a \<^verbatim>\<open>RecursionError\<close> for nesting that is too deep).
\<close>

type_synonym bytes = "8 word list"

record pylib =
  json_dumps :: "pyval \<Rightarrow> string"
  json_loads :: "string \<Rightarrow> exn + pyval"
  encode_utf8 :: "string \<Rightarrow> bytes"
  decode_utf8 :: "bytes \<Rightarrow> exn + string"

text \<open>
  The expression \<^verbatim>\<open>json.loads(artifact.content.decode('utf-8'))\<close>, as both \<^verbatim>\<open>try\<close> blocks
  that catch \<^verbatim>\<open>(json.JSONDecodeError, UnicodeDecodeError)\<close> evaluate it.
\<close>

definition loads_utf8 :: "pylib \<Rightarrow> bytes \<Rightarrow> exn + pyval" where
  "loads_utf8 lib b =
     (case decode_utf8 lib b of Inl error \<Rightarrow> Inl error | Inr text \<Rightarrow> json_loads lib text)"

text \<open>
  The class test of \<^verbatim>\<open>except (json.JSONDecodeError, UnicodeDecodeError) as error\<close>: the
  clause catches the two decoding errors and nothing else.
\<close>

definition is_decode_error :: "exn \<Rightarrow> bool" where
  "is_decode_error error \<longleftrightarrow>
     is_Exception error
     \<and> (exn_class error = ''JSONDecodeError'' \<or> exn_class error = ''UnicodeDecodeError'')"

text \<open>
  The clock and the random number generator: what \<^verbatim>\<open>datetime.now()\<close> and the module
  \<^verbatim>\<open>random\<close> give during one run. \<open>day_strftime i\<close> is the formatted date of day \<open>i\<close> of
  the follower series; \<open>randint_draw i\<close> and \<open>choice_draw\<close> are raw draws, reduced to the
  requested range where they are used.
\<close>

record environ =
  now_isoformat :: string
  day_strftime :: "nat \<Rightarrow> string"
  randint_draw :: "nat \<Rightarrow> nat"
  choice_draw :: nat

text \<open>
  The state of the process: the global \<^verbatim>\<open>storage\<close>, the contents of the global
  \<^verbatim>\<open>artifact_service\<close>, and the records written by the global \<^verbatim>\<open>logger\<close> (level, message,
  context). Console output of \<^verbatim>\<open>print\<close> is not part of the model.
\<close>

record Artifact =
  name :: string
  content :: bytes
  mime_type :: string

type_synonym log_record = "string \<times> string \<times> (string \<times> string) list"

record world =
  storage :: StorageService
  artifact_service :: "Artifact list"
  logger :: "log_record list"

text \<open>
  Modelled from the spec: \<^verbatim>\<open>services/artifact_service.py\<close> (\<^verbatim>\<open>Artifact\<close>,
  \<^verbatim>\<open>InMemoryArtifactService.create\<close>) is not among the source files. The spec, section 4.1:
  \<^verbatim>\<open>create(name, content, mimeType)\<close> always succeeds and returns a new immutable artifact,
  which the store owns for the lifetime of the process.
\<close>

definition artifact_service_create :: "string \<Rightarrow> bytes \<Rightarrow> string \<Rightarrow> world \<Rightarrow> Artifact \<times> world" where
  "artifact_service_create n c m w =
     (let artifact = \<lparr>name = n, content = c, mime_type = m\<rparr>
      in (artifact, w\<lparr>artifact_service := artifact_service w @ [artifact]\<rparr>))"

subsection \<open>\<^verbatim>\<open>logger.py\<close> and \<^verbatim>\<open>plugins/logging_plugin.py\<close>\<close>

definition logger_info :: "string \<Rightarrow> (string \<times> string) list \<Rightarrow> world \<Rightarrow> world" where
  "logger_info message context w = w\<lparr>logger := logger w @ [(''INFO'', message, context)]\<rparr>"

definition logger_error :: "string \<Rightarrow> (string \<times> string) list \<Rightarrow> world \<Rightarrow> world" where
  "logger_error message context w = w\<lparr>logger := logger w @ [(''ERROR'', message, context)]\<rparr>"

definition LoggingPlugin :: "('i, 'o, world) plugin" where
  "LoggingPlugin =
     \<lparr>on_agent_start = Some (\<lambda>agent_name args w.
          (Inr (), logger_info ''Agent started'' [(''agent'', agent_name)] w)),
      on_agent_end = Some (\<lambda>agent_name result w.
          (Inr (), logger_info ''Agent ended'' [(''agent'', agent_name)] w)),
      on_agent_error = Some (\<lambda>agent_name error w.
          (Inr (), logger_error ''Agent error''
             [(''agent'', agent_name), (''error'', exn_msg error),
              (''error_type'', exn_class error)] w))\<rparr>"

subsection \<open>\<^verbatim>\<open>services/snapchat.py\<close> and \<^verbatim>\<open>services/gemini.py\<close>\<close>

definition generate_followers_data :: "environ \<Rightarrow> pyval list" where
  "generate_followers_data env =
     map (\<lambda>i. PDict
            [(''date'', PStr (day_strftime env i)),
             (''followers'',
                PInt (20000 + int i * 150 + (int (randint_draw env i mod 101) - 50)))])
       [0..<31]"

definition content_row ::
  "string \<Rightarrow> string \<Rightarrow> string \<Rightarrow> int \<Rightarrow> int \<Rightarrow> int \<Rightarrow> int \<Rightarrow> pyval" where
  "content_row i title date views completion screenshots shares =
     PDict [(''id'', PStr i), (''title'', PStr title), (''date'', PStr date),
            (''views'', PInt views), (''completion'', PInt completion),
            (''screenshots'', PInt screenshots), (''shares'', PInt shares)]"

definition fetch_snapchat_data :: "environ \<Rightarrow> string \<Rightarrow> string \<Rightarrow> exn + pyval" where
  "fetch_snapchat_data env client_id api_key =
     (if client_id = [] \<or> api_key = [] then Inl (ValueError ''Invalid Snapchat API credentials'')
      else Inr (PDict
        [(''totalFollowers'', PInt 24583),
         (''followerGrowth'', PFloat 12.3),
         (''totalStoryViews'', PInt 15942),
         (''storyViewsGrowth'', PFloat 8.7),
         (''engagementRate'', PFloat 5.2),
         (''engagementRateChange'', PFloat (- 2.1)),
         (''completionRate'', PFloat 78.3),
         (''completionRateChange'', PFloat 3.5),
         (''lastUpdated'', PStr (now_isoformat env)),
         (''followers'', PList (generate_followers_data env)),
         (''demographics'', PList
            [PDict [(''ageRange'', PStr ''18-24''), (''percentage'', PInt 45)],
             PDict [(''ageRange'', PStr ''25-34''), (''percentage'', PInt 30)],
             PDict [(''ageRange'', PStr ''35-44''), (''percentage'', PInt 15)],
             PDict [(''ageRange'', PStr ''45+''), (''percentage'', PInt 10)]]),
         (''content'', PList
            [content_row ''1'' ''Summer Party Snap'' ''2023-07-24'' 8452 85 214 126,
             content_row ''2'' ''Beach Day'' ''2023-07-22'' 7128 72 178 94,
             content_row ''3'' ''New Product Reveal'' ''2023-07-20'' 9834 91 412 203,
             content_row ''4'' ''Behind The Scenes'' ''2023-07-18'' 6453 68 145 87,
             content_row ''5'' ''Q&A Session'' ''2023-07-16'' 5892 79 201 156])]))"

definition insights_list :: "string list" where
  "insights_list =
     [''Your audience engagement is strongest on content posted between 6-8pm. '' @
      ''Consider scheduling more posts during this timeframe for maximum reach.'',
      ''Your 'New Product Reveal' had the highest completion rate at 91%. '' @
      ''This suggests your audience is interested in exclusive product announcements. '' @
      ''Consider creating more content around product launches.'',
      ''Your follower growth rate of 12.3% is above industry average. '' @
      ''Your consistent posting schedule seems to be working well for audience retention.'',
      ''18-24 year olds make up 45% of your audience. Your content resonates well with Gen Z. '' @
      ''Consider incorporating more trending topics popular with this demographic.'',
      ''While your engagement rate of 5.2% is solid, there's been a 2.1% decrease recently. '' @
      ''Try experimenting with more interactive content like polls or questions to boost engagement.'',
      ''Screenshots are highest on your product-related content, suggesting your audience wants '' @
      ''to save this information for later. Consider adding clear calls-to-action for these types of posts.'',
      ''Your story completion rate of 78.3% is excellent. Keep your stories concise and engaging '' @
      ''to maintain this high retention rate.'',
      ''Based on your recent performance, creating more behind-the-scenes content could help '' @
      ''improve your engagement metrics and attract new followers.'']"

text \<open>\<^verbatim>\<open>random.choice(insights)\<close>: some element of the list.\<close>

definition generate_ai_insight :: "environ \<Rightarrow> pyval \<Rightarrow> string" where
  "generate_ai_insight env snapchat_data =
     insights_list ! (choice_draw env mod length insights_list)"

section \<open>The stage agents\<close>

text \<open>
  A \<^verbatim>\<open>run\<close> method of a stage causes no events of its own: it calls no other agent.
\<close>

subsection \<open>\<^verbatim>\<open>agents/snapchat_data_fetcher_agent.py\<close>\<close>

definition MissingCredentials :: "int \<Rightarrow> exn" where
  "MissingCredentials user_id =
     ValueError (''Snapchat credentials not found for user '' @ str_int user_id)"

text \<open>\<^verbatim>\<open>not x\<close> for an \<^verbatim>\<open>Optional[str]\<close> field: true for \<^verbatim>\<open>None\<close> and for the empty string.\<close>

fun not_str :: "string option \<Rightarrow> bool" where
  "not_str None = True"
| "not_str (Some x) = (x = [])"

definition SnapchatDataFetcherAgent_run ::
  "pylib \<Rightarrow> environ \<Rightarrow> int \<Rightarrow> world \<Rightarrow> (exn + Artifact) \<times> 'e list \<times> world" where
  "SnapchatDataFetcherAgent_run lib env user_id w =
     (case get_user (storage w) user_id of
        None \<Rightarrow> (Inl (MissingCredentials user_id), [], w)
      | Some user \<Rightarrow>
          if not_str (snapchat_client_id user) \<or> not_str (snapchat_api_key user)
          then (Inl (MissingCredentials user_id), [], w)
          else
            (case fetch_snapchat_data env (the (snapchat_client_id user))
                    (the (snapchat_api_key user)) of
               Inl error \<Rightarrow> (Inl error, [], w)
             | Inr data \<Rightarrow>
                 (case artifact_service_create (''snapchat-data-'' @ str_int user_id)
                         (encode_utf8 lib (json_dumps lib data)) ''application/json'' w of
                    (artifact, w') \<Rightarrow> (Inr artifact, [], w'))))"

subsection \<open>\<^verbatim>\<open>agents/data_analysis_agent.py\<close>\<close>

definition MalformedArtifact :: "string \<Rightarrow> exn" where
  "MalformedArtifact detail = ValueError (''Invalid Snapchat data format in artifact: '' @ detail)"

definition DataAnalysisAgent_run ::
  "pylib \<Rightarrow> environ \<Rightarrow> Artifact \<Rightarrow> world \<Rightarrow> (exn + Artifact) \<times> 'e list \<times> world" where
  "DataAnalysisAgent_run lib env snapchat_data_artifact w =
     (case loads_utf8 lib (content snapchat_data_artifact) of
        Inl error \<Rightarrow>
          if is_decode_error error then (Inl (MalformedArtifact (exn_msg error)), [], w)
          else (Inl error, [], w)
      | Inr data \<Rightarrow>
          (let insight = generate_ai_insight env data in
           case artifact_service_create (''insight-'' @ name snapchat_data_artifact)
                  (encode_utf8 lib insight) ''text/plain'' w of
             (insight_artifact, w') \<Rightarrow> (Inr insight_artifact, [], w')))"

subsection \<open>Validation and safety\<close>

text \<open>
  \<^verbatim>\<open>agents/test_agent.py\<close> and \<^verbatim>\<open>agents/safety_agent.py\<close> of the package
  \<^verbatim>\<open>python_agents\<close> are not among the source files; the classes of the same names in
  \<^verbatim>\<open>src/agent-service/adk/services/test.py\<close> and \<^verbatim>\<open>safety.py\<close> are, and are the ones
  modelled. The test agent receives the insight as a value, since it checks its type.
\<close>

definition TestAgent_run_agent ::
  "pyval \<times> pyval \<Rightarrow> 's \<Rightarrow> (exn + bool) \<times> 'e list \<times> 's" where
  "TestAgent_run_agent args s = (TestAgent_run (fst args) (snd args), [], s)"

definition contains_pii :: "pyval \<Rightarrow> bool" where
  "contains_pii data = False"

definition contains_inappropriate_content :: "string \<Rightarrow> bool" where
  "contains_inappropriate_content text = False"

definition SafetyAgent_run ::
  "pyval \<times> string \<Rightarrow> 's \<Rightarrow> (exn + bool) \<times> 'e list \<times> 's" where
  "SafetyAgent_run args s =
     (if contains_pii (fst args) then (Inl (Exception ''Snapchat data contains PII''), [], s)
      else if contains_inappropriate_content (snd args)
      then (Inl (Exception ''Insights contain inappropriate content''), [], s)
      else (Inr True, [], s))"

subsection \<open>\<^verbatim>\<open>agents/evaluation_agent.py\<close>\<close>

definition is_relevant :: "string \<Rightarrow> bool" where
  "is_relevant insights = True"

definition is_actionable :: "string \<Rightarrow> bool" where
  "is_actionable insights = True"

definition EvaluationAgent_run :: "string \<Rightarrow> 's \<Rightarrow> (exn + bool) \<times> 'e list \<times> 's" where
  "EvaluationAgent_run insights s =
     (if \<not> is_relevant insights then (Inl (ValueError ''Insights are not relevant''), [], s)
      else if \<not> is_actionable insights
      then (Inl (ValueError ''Insights are not actionable''), [], s)
      else (Inr True, [], s))"

subsection \<open>\<^verbatim>\<open>agents/database_agent.py\<close>\<close>

definition DatabaseAgent_run ::
  "int \<times> pyval \<times> string \<Rightarrow> world \<Rightarrow> (exn + bool) \<times> 'e list \<times> world" where
  "DatabaseAgent_run args w =
     (case args of (user_id, data, insights) \<Rightarrow>
        (case save_snapchat_data (storage w) user_id data of
           (ok1, st1) \<Rightarrow>
             (case save_ai_insight st1 user_id insights of
                (ok2, st2) \<Rightarrow> (Inr True, [], w\<lparr>storage := st2\<rparr>))))"

section \<open>The orchestrator\<close>

text \<open>
  \<^verbatim>\<open>src/python_agents/agents/orchestrator_agent.py\<close>. The six sub-agents are attributes
  of the orchestrator; \<^verbatim>\<open>run\<close> calls \<^verbatim>\<open>execute\<close> on each in turn. An event of a stage is an
  event of that sub-agent's \<^verbatim>\<open>execute\<close>.
\<close>

datatype stage = Fetch | Analysis | Validation | Safety | Evaluation | Persistence

datatype 'e stage_event =
    FetchEv "(int, Artifact, 'e) event"
  | AnalysisEv "(Artifact, Artifact, 'e) event"
  | ValidationEv "(pyval \<times> pyval, bool, 'e) event"
  | SafetyEv "(pyval \<times> string, bool, 'e) event"
  | EvaluationEv "(string, bool, 'e) event"
  | PersistenceEv "(int \<times> pyval \<times> string, bool, 'e) event"

record ('s, 'e) sub_agents =
  snapchat_fetcher :: "(int, Artifact, 's, 'e) Agent"
  data_analyzer :: "(Artifact, Artifact, 's, 'e) Agent"
  test_agent :: "(pyval \<times> pyval, bool, 's, 'e) Agent"
  safety_agent :: "(pyval \<times> string, bool, 's, 'e) Agent"
  evaluation_agent :: "(string, bool, 's, 'e) Agent"
  database_agent :: "(int \<times> pyval \<times> string, bool, 's, 'e) Agent"

text \<open>
  Sequencing of statements: the second runs only if the first did not raise, in the state
  the first left, and the events add up. \<open>in_stage\<close> marks the events of a sub-agent with
  its stage; \<open>evaluated\<close> is an expression that touches no state.
\<close>

definition and_then ::
  "('s \<Rightarrow> (exn + 'a) \<times> 'ev list \<times> 's) \<Rightarrow> ('a \<Rightarrow> 's \<Rightarrow> (exn + 'b) \<times> 'ev list \<times> 's)
     \<Rightarrow> 's \<Rightarrow> (exn + 'b) \<times> 'ev list \<times> 's" where
  "and_then m f s =
     (case m s of
        (Inl error, evs, s') \<Rightarrow> (Inl error, evs, s')
      | (Inr x, evs, s') \<Rightarrow> (case f x s' of (r, evs', s'') \<Rightarrow> (r, evs @ evs', s'')))"

definition in_stage ::
  "('ev \<Rightarrow> 'f) \<Rightarrow> ('s \<Rightarrow> (exn + 'a) \<times> 'ev list \<times> 's) \<Rightarrow> 's \<Rightarrow> (exn + 'a) \<times> 'f list \<times> 's" where
  "in_stage tag m s = (case m s of (r, evs, s') \<Rightarrow> (r, map tag evs, s'))"

definition evaluated :: "exn + 'a \<Rightarrow> 's \<Rightarrow> (exn + 'a) \<times> 'ev list \<times> 's" where
  "evaluated r s = (r, [], s)"

text \<open>
  Step 3 of \<^verbatim>\<open>run\<close>: the data artifact is parsed inside a \<^verbatim>\<open>try\<close> that turns a decoding
  error into a \<^verbatim>\<open>ValueError\<close> and lets any other exception pass; the insight artifact is
  decoded outside any \<^verbatim>\<open>try\<close>, so whatever the decoder raises leaves \<^verbatim>\<open>run\<close>.
\<close>

definition parse_snapchat_data :: "pylib \<Rightarrow> Artifact \<Rightarrow> exn + pyval" where
  "parse_snapchat_data lib snapchat_data_artifact =
     (case loads_utf8 lib (content snapchat_data_artifact) of
        Inl error \<Rightarrow>
          if is_decode_error error then Inl (MalformedArtifact (exn_msg error)) else Inl error
      | Inr data \<Rightarrow> Inr data)"

definition decode_insights :: "pylib \<Rightarrow> Artifact \<Rightarrow> exn + string" where
  "decode_insights lib insight_artifact =
     (case decode_utf8 lib (content insight_artifact) of
        Inl error \<Rightarrow> Inl error
      | Inr text \<Rightarrow> Inr text)"

definition OrchestratorAgent_run ::
  "pylib \<Rightarrow> ('s, 'e) sub_agents \<Rightarrow> int \<Rightarrow> 's \<Rightarrow> (exn + pyval) \<times> 'e stage_event list \<times> 's" where
  "OrchestratorAgent_run lib self user_id =
     and_then (in_stage FetchEv (execute (snapchat_fetcher self) user_id))
       (\<lambda>snapchat_data_artifact.
     and_then (in_stage AnalysisEv (execute (data_analyzer self) snapchat_data_artifact))
       (\<lambda>insight_artifact.
     and_then (evaluated (parse_snapchat_data lib snapchat_data_artifact))
       (\<lambda>data.
     and_then (evaluated (decode_insights lib insight_artifact))
       (\<lambda>insights.
     and_then (in_stage ValidationEv (execute (test_agent self) (data, PStr insights)))
       (\<lambda>r3.
     and_then (in_stage SafetyEv (execute (safety_agent self) (data, insights)))
       (\<lambda>r4.
     and_then (in_stage EvaluationEv (execute (evaluation_agent self) insights))
       (\<lambda>r5.
     and_then (in_stage PersistenceEv (execute (database_agent self) (user_id, data, insights)))
       (\<lambda>r6.
     evaluated (Inr (PDict [(''snapchatData'', data), (''insights'', PStr insights)]))))))))))"

text \<open>
  An orchestrator object with given plugins and sub-agents, and the one the constructor
  \<^verbatim>\<open>OrchestratorAgent()\<close> builds: a \<^verbatim>\<open>LoggingPlugin\<close> on itself and on each sub-agent.
\<close>

definition orchestrator ::
  "pylib \<Rightarrow> (int, pyval, 's) plugin list \<Rightarrow> ('s, 'e) sub_agents
     \<Rightarrow> (int, pyval, 's, 'e stage_event) Agent" where
  "orchestrator lib ps self =
     \<lparr>class_name = ''OrchestratorAgent'', plugins = ps, run = OrchestratorAgent_run lib self\<rparr>"

definition OrchestratorAgent_sub_agents :: "pylib \<Rightarrow> environ \<Rightarrow> (world, 'e) sub_agents" where
  "OrchestratorAgent_sub_agents lib env =
     \<lparr>snapchat_fetcher =
        \<lparr>class_name = ''SnapchatDataFetcherAgent'', plugins = [LoggingPlugin],
         run = SnapchatDataFetcherAgent_run lib env\<rparr>,
      data_analyzer =
        \<lparr>class_name = ''DataAnalysisAgent'', plugins = [LoggingPlugin],
         run = DataAnalysisAgent_run lib env\<rparr>,
      test_agent =
        \<lparr>class_name = ''TestAgent'', plugins = [LoggingPlugin], run = TestAgent_run_agent\<rparr>,
      safety_agent =
        \<lparr>class_name = ''SafetyAgent'', plugins = [LoggingPlugin], run = SafetyAgent_run\<rparr>,
      evaluation_agent =
        \<lparr>class_name = ''EvaluationAgent'', plugins = [LoggingPlugin],
         run = EvaluationAgent_run\<rparr>,
      database_agent =
        \<lparr>class_name = ''DatabaseAgent'', plugins = [LoggingPlugin], run = DatabaseAgent_run\<rparr>\<rparr>"

definition OrchestratorAgent ::
  "pylib \<Rightarrow> environ \<Rightarrow> (int, pyval, world, 'e stage_event) Agent" where
  "OrchestratorAgent lib env =
     orchestrator lib [LoggingPlugin] (OrchestratorAgent_sub_agents lib env)"

text \<open>The stage an event belongs to, and what the event says about how the stage ended.\<close>

fun stage_of :: "'e stage_event \<Rightarrow> stage" where
  "stage_of (FetchEv ev) = Fetch"
| "stage_of (AnalysisEv ev) = Analysis"
| "stage_of (ValidationEv ev) = Validation"
| "stage_of (SafetyEv ev) = Safety"
| "stage_of (EvaluationEv ev) = Evaluation"
| "stage_of (PersistenceEv ev) = Persistence"

fun stage_index :: "stage \<Rightarrow> nat" where
  "stage_index Fetch = 1"
| "stage_index Analysis = 2"
| "stage_index Validation = 3"
| "stage_index Safety = 4"
| "stage_index Evaluation = 5"
| "stage_index Persistence = 6"

fun raised :: "('i, 'o, 'e) event \<Rightarrow> exn option" where
  "raised (Raised error) = Some error"
| "raised ev = None"

fun returned :: "('i, 'o, 'e) event \<Rightarrow> bool" where
  "returned (Returned result) = True"
| "returned ev = False"

fun stage_raised :: "'e stage_event \<Rightarrow> exn option" where
  "stage_raised (FetchEv ev) = raised ev"
| "stage_raised (AnalysisEv ev) = raised ev"
| "stage_raised (ValidationEv ev) = raised ev"
| "stage_raised (SafetyEv ev) = raised ev"
| "stage_raised (EvaluationEv ev) = raised ev"
| "stage_raised (PersistenceEv ev) = raised ev"

fun stage_returned :: "'e stage_event \<Rightarrow> bool" where
  "stage_returned (FetchEv ev) = returned ev"
| "stage_returned (AnalysisEv ev) = returned ev"
| "stage_returned (ValidationEv ev) = returned ev"
| "stage_returned (SafetyEv ev) = returned ev"
| "stage_returned (EvaluationEv ev) = returned ev"
| "stage_returned (PersistenceEv ev) = returned ev"

section \<open>Auxiliary definitions for the statements\<close>

text \<open>
  The positions at which a list of optional hooks has a hook, counted from \<open>k\<close>: the calls
  the dispatch loop makes when no hook raises.
\<close>

fun present_from :: "nat \<Rightarrow> 'h option list \<Rightarrow> nat list" where
  "present_from k [] = []"
| "present_from k (None # hs) = present_from (Suc k) hs"
| "present_from k (Some h # hs) = k # present_from (Suc k) hs"


text \<open>
  A plugin for examples: it has all three hooks, and each hook either returns or raises a
  given exception, leaving the state as it is.
\<close>

definition stub_plugin :: "exn option \<Rightarrow> exn option \<Rightarrow> exn option \<Rightarrow> ('i, 'o, 's) plugin" where
  "stub_plugin on_start on_end on_error =
     \<lparr>on_agent_start = Some (\<lambda>agent args s. (case on_start of None \<Rightarrow> Inr () | Some e \<Rightarrow> Inl e, s)),
      on_agent_end = Some (\<lambda>agent result s. (case on_end of None \<Rightarrow> Inr () | Some e \<Rightarrow> Inl e, s)),
      on_agent_error = Some (\<lambda>agent error s. (case on_error of None \<Rightarrow> Inr () | Some e \<Rightarrow> Inl e, s))\<rparr>"


text \<open>The events that record a hook call.\<close>

fun hook_call :: "('i, 'o, 'e) event \<Rightarrow> bool" where
  "hook_call (Started k x) = True"
| "hook_call (Ended k y) = True"
| "hook_call (Errored k e) = True"
| "hook_call ev = False"


text \<open>How \<open>execute\<close> ends, read off its events.\<close>

definition ends_with :: "(exn + 'o) \<Rightarrow> ('i, 'o, 'e) event list \<Rightarrow> bool" where
  "ends_with r evs \<longleftrightarrow>
     (\<forall>ev \<in> set evs. \<forall>e. raised ev = Some e \<longrightarrow> r = Inl e)
     \<and> (\<forall>ev \<in> set evs. returned ev \<longrightarrow> (\<exists>v. r = Inr v \<and> ev = Returned v))
     \<and> (\<forall>v. r = Inr v \<longrightarrow> Returned v \<in> set evs)
     \<and> (\<forall>e. r = Inl e \<longrightarrow> Raised e \<in> set evs)"


text \<open>
  Stand-ins for examples: a clock and random source, a codec library that can decode what
  it encoded for the example data, and a directory holding subject 1 with the credentials
  \<^verbatim>\<open>("cid", "key")\<close>.
\<close>

definition test_environ :: environ where
  "test_environ =
     \<lparr>now_isoformat = ''2026-01-01T12:00:00'', day_strftime = (\<lambda>i. ''2026-01-01''),
      randint_draw = (\<lambda>i. 50), choice_draw = 0\<rparr>"

definition test_lib :: pylib where
  "test_lib =
     \<lparr>json_dumps = (\<lambda>v. ''{...}''),
      json_loads = (\<lambda>text.
        if text = ''{...}''
        then (case fetch_snapchat_data test_environ ''cid'' ''key'' of
                Inl e \<Rightarrow> Inl (JSONDecodeError ''Expecting value'')
              | Inr data \<Rightarrow> Inr data)
        else Inl (JSONDecodeError ''Expecting value'')),
      encode_utf8 = map (\<lambda>c. of_nat (of_char c)),
      decode_utf8 = (\<lambda>b. Inr (map (\<lambda>x. char_of (unat x)) b))\<rparr>"


definition test_world :: world where
  "test_world =
     \<lparr>storage =
        \<lparr>store_users =
           [1 \<mapsto> \<lparr>User_id = 1, username = ''test_user'', snapchat_client_id = Some ''cid'',
                   snapchat_api_key = Some ''key''\<rparr>],
         store_snapchat_data = Map.empty, store_ai_insights = Map.empty\<rparr>,
      artifact_service = [], logger = []\<rparr>"

section \<open>Properties of hook dispatch\<close>

lemma present_from_shift: "present_from (Suc k) hs = map Suc (present_from k hs)"
  by (induction k hs rule: present_from.induct) auto

lemma present_from_filter:
  "present_from 0 hs = filter (\<lambda>j. hs ! j \<noteq> None) [0..<length hs]"
proof (induction hs)
  case Nil
  then show ?case by simp
next
  case (Cons x hs)
  have upt: "[0..<length (x # hs)] = 0 # map Suc [0..<length hs]"
    by (simp add: upt_conv_Cons map_Suc_upt del: upt_Suc)
  have "filter (\<lambda>j. (x # hs) ! j \<noteq> None) (map Suc [0..<length hs])
      = map Suc (filter (\<lambda>j. hs ! j \<noteq> None) [0..<length hs])"
    by (simp add: filter_map comp_def)
  with Cons upt show ?case
    by (cases x) (simp_all add: present_from_shift [of 0])
qed


lemma notify_returns:
  "notify k hs mk s = (Inr u, evs, s') \<Longrightarrow> evs = map mk (present_from k hs)"
proof (induction k hs mk s arbitrary: evs s' rule: notify.induct)
  case (1 k mk s)
  then show ?case by simp
next
  case (2 k hs mk s)
  then show ?case by simp
next
  case (3 k h hs mk s)
  then show ?case
    by (auto split: prod.splits sum.splits)
qed


lemma present_from_map:
  "present_from 0 (map (\<lambda>p. map_option (f p) (sel p)) ps) = hook_positions sel ps"
proof -
  have "filter (\<lambda>j. map (\<lambda>p. map_option (f p) (sel p)) ps ! j \<noteq> None) [0..<length ps]
      = filter (\<lambda>k. sel (ps ! k) \<noteq> None) [0..<length ps]"
    by (rule filter_cong [OF refl]) (simp del: upt_Suc)
  then show ?thesis by (simp add: present_from_filter hook_positions_def)
qed


lemma trigger_start_returns:
  "trigger_start a args s = (Inr u, evs, s') \<Longrightarrow>
   evs = map (\<lambda>k. Started k args) (hook_positions on_agent_start (plugins a))"
  unfolding trigger_start_def by (drule notify_returns) (simp add: present_from_map)

lemma trigger_end_returns:
  "trigger_end a result s = (Inr u, evs, s') \<Longrightarrow>
   evs = map (\<lambda>k. Ended k result) (hook_positions on_agent_end (plugins a))"
  unfolding trigger_end_def by (drule notify_returns) (simp add: present_from_map)

lemma trigger_error_returns:
  "trigger_error a error s = (Inr u, evs, s') \<Longrightarrow>
   evs = map (\<lambda>k. Errored k error) (hook_positions on_agent_error (plugins a))"
  unfolding trigger_error_def by (drule notify_returns) (simp add: present_from_map)

lemmas exec_simps = execute_def trigger_start_def trigger_end_def trigger_error_def
  except_handler_def except_Exception_def stub_plugin_def EvaluationAgent_run_def
  is_relevant_def is_actionable_def


text \<open>
  Claim C1, as stated, fails for a plugin whose hook raises: here \<^verbatim>\<open>run\<close> succeeds, the
  \<^verbatim>\<open>on_agent_end\<close> hook of the only plugin raises, and then the \<^verbatim>\<open>on_agent_error\<close> hook of
  the same plugin is called too and the result of \<^verbatim>\<open>run\<close> is not returned.
\<close>

theorem end_and_error_hooks_both_fire_counterexample:
  "execute \<lparr>class_name = ''EvaluationAgent'',
      plugins = [stub_plugin None (Some (Exception ''hook failed'')) None],
      run = EvaluationAgent_run\<rparr> ''text'' ()
   = (Inl (Exception ''hook failed''),
      [Started 0 ''text'', Ran ''text'', Ended 0 True,
       Errored 0 (Exception ''hook failed''), Raised (Exception ''hook failed'')],
      ())"
  by (simp add: exec_simps)


text \<open>
  Claim C1, amended. For every agent, every list of attached plugins and every input such
  that no hook called during the call raises, \<open>execute\<close> calls the \<^verbatim>\<open>on_agent_start\<close> hook
  of each plugin that has one, once, in attachment order and with the input, then calls
  \<^verbatim>\<open>run\<close> once. If \<^verbatim>\<open>run\<close> succeeds, it then calls each \<^verbatim>\<open>on_agent_end\<close> hook once with the
  result, in attachment order, calls no \<^verbatim>\<open>on_agent_error\<close> hook, and returns the result of
  \<^verbatim>\<open>run\<close>. If \<^verbatim>\<open>run\<close> fails with an instance of \<^verbatim>\<open>Exception\<close>, it calls each
  \<^verbatim>\<open>on_agent_error\<close> hook once with the failure, in attachment order, calls no
  \<^verbatim>\<open>on_agent_end\<close> hook, and raises the same failure.
\<close>

theorem execute_hooks_in_order:
  assumes "trigger_start a args s = (Inr (), ev1, s1)"
    and "run a args s1 = (r, ev2, s2)"
    and "case r of
           Inr result \<Rightarrow> trigger_end a result s2 = (Inr (), ev3, s3)
         | Inl error \<Rightarrow> is_Exception error \<and> trigger_error a error s2 = (Inr (), ev3, s3)"
  shows "execute a args s =
       (r,
        map (\<lambda>k. Started k args) (hook_positions on_agent_start (plugins a))
          @ Ran args # map Inner ev2
          @ (case r of
               Inr result \<Rightarrow>
                 map (\<lambda>k. Ended k result) (hook_positions on_agent_end (plugins a))
                   @ [Returned result]
             | Inl error \<Rightarrow>
                 map (\<lambda>k. Errored k error) (hook_positions on_agent_error (plugins a))
                   @ [Raised error]),
        s3)"
proof (cases r)
  case (Inl error)
  with assms(3) have ex: "is_Exception error"
    and te: "trigger_error a error s2 = (Inr (), ev3, s3)" by simp_all
  from trigger_start_returns [OF assms(1)] trigger_error_returns [OF te]
    assms(1,2) Inl ex te
  show ?thesis by (simp add: execute_def except_Exception_def except_handler_def)
next
  case (Inr result)
  with assms(3) have te: "trigger_end a result s2 = (Inr (), ev3, s3)" by simp
  from trigger_start_returns [OF assms(1)] trigger_end_returns [OF te]
    assms(1,2) Inr te
  show ?thesis by (simp add: execute_def)
qed

theorem execute_hooks_in_order_witness:
  "execute (\<lparr>class_name = ''EvaluationAgent'',
      plugins = [LoggingPlugin, \<lparr>on_agent_start = None, on_agent_end = None, on_agent_error = None\<rparr>,
                 LoggingPlugin],
      run = EvaluationAgent_run\<rparr> :: (string, bool, world, unit) Agent) ''text''
      \<lparr>storage = \<lparr>store_users = Map.empty, store_snapchat_data = Map.empty,
                   store_ai_insights = Map.empty\<rparr>,
       artifact_service = [], logger = []\<rparr>
   = (Inr True,
      [Started 0 ''text'', Started 2 ''text'', Ran ''text'', Ended 0 True, Ended 2 True,
       Returned True],
      \<lparr>storage = \<lparr>store_users = Map.empty, store_snapchat_data = Map.empty,
                   store_ai_insights = Map.empty\<rparr>,
       artifact_service = [],
       logger = [(''INFO'', ''Agent started'', [(''agent'', ''EvaluationAgent'')]),
                 (''INFO'', ''Agent started'', [(''agent'', ''EvaluationAgent'')]),
                 (''INFO'', ''Agent ended'', [(''agent'', ''EvaluationAgent'')]),
                 (''INFO'', ''Agent ended'', [(''agent'', ''EvaluationAgent'')])]\<rparr>)"
proof -
  let ?ps = "[LoggingPlugin, \<lparr>on_agent_start = None, on_agent_end = None, on_agent_error = None\<rparr>,
              LoggingPlugin] :: (string, bool, world) plugin list"
  let ?a = "\<lparr>class_name = ''EvaluationAgent'', plugins = ?ps, run = EvaluationAgent_run\<rparr>
              :: (string, bool, world, unit) Agent"
  let ?st = "\<lparr>store_users = Map.empty, store_snapchat_data = Map.empty,
               store_ai_insights = Map.empty\<rparr> :: StorageService"
  let ?w = "\<lparr>storage = ?st, artifact_service = [], logger = []\<rparr>"
  let ?w1 = "\<lparr>storage = ?st, artifact_service = [],
       logger = [(''INFO'', ''Agent started'', [(''agent'', ''EvaluationAgent'')]),
                 (''INFO'', ''Agent started'', [(''agent'', ''EvaluationAgent'')])]\<rparr>"
  let ?w3 = "\<lparr>storage = ?st, artifact_service = [],
       logger = [(''INFO'', ''Agent started'', [(''agent'', ''EvaluationAgent'')]),
                 (''INFO'', ''Agent started'', [(''agent'', ''EvaluationAgent'')]),
                 (''INFO'', ''Agent ended'', [(''agent'', ''EvaluationAgent'')]),
                 (''INFO'', ''Agent ended'', [(''agent'', ''EvaluationAgent'')])]\<rparr>"
  have 1: "trigger_start ?a ''text'' ?w = (Inr (), [Started 0 ''text'', Started 2 ''text''], ?w1)"
    by (simp add: trigger_start_def LoggingPlugin_def logger_info_def)
  have 2: "run ?a ''text'' ?w1 = (Inr True, [], ?w1)"
    by (simp add: EvaluationAgent_run_def is_relevant_def is_actionable_def)
  have 3: "case (Inr True :: exn + bool) of
           Inr result \<Rightarrow> trigger_end ?a result ?w1 = (Inr (), [Ended 0 True, Ended 2 True], ?w3)
         | Inl error \<Rightarrow> is_Exception error
             \<and> trigger_error ?a error ?w1 = (Inr (), [Ended 0 True, Ended 2 True], ?w3)"
    by (simp add: trigger_end_def LoggingPlugin_def logger_info_def)
  have pos: "hook_positions on_agent_start (plugins ?a) = [0, 2]"
    "hook_positions on_agent_end (plugins ?a) = [0, 2]"
    by (simp_all add: hook_positions_def LoggingPlugin_def upt_rec)
  from execute_hooks_in_order [OF 1 2 3] show ?thesis
    by (simp only: pos) simp
qed






section \<open>How \<open>execute\<close> ends, in its events\<close>

lemma notify_events:
  "notify k hs mk s = (r, evs, s') \<Longrightarrow> ev \<in> set evs \<Longrightarrow> \<exists>j. ev = mk j"
proof (induction k hs mk s arbitrary: r evs s' rule: notify.induct)
  case (1 k mk s)
  then show ?case by simp
next
  case (2 k hs mk s)
  then show ?case by simp
next
  case (3 k h hs mk s)
  then show ?case
    by (auto split: prod.splits sum.splits)
qed

lemma notify_neutral:
  assumes "notify k hs mk s = (r, evs, s')" and "\<And>j. hook_call (mk j)"
  shows "\<forall>ev \<in> set evs. raised ev = None \<and> \<not> returned ev \<and> (\<forall>y. ev \<noteq> Inner y)"
proof
  fix ev
  assume "ev \<in> set evs"
  from notify_events [OF assms(1) this] obtain j where "ev = mk j" by blast
  with assms(2) have "hook_call ev" by simp
  then show "raised ev = None \<and> \<not> returned ev \<and> (\<forall>y. ev \<noteq> Inner y)"
    by (cases ev) simp_all
qed

lemma trigger_start_neutral:
  "trigger_start a x s = (r, evs, s') \<Longrightarrow>
   \<forall>ev \<in> set evs. raised ev = None \<and> \<not> returned ev \<and> (\<forall>y. ev \<noteq> Inner y)"
  unfolding trigger_start_def by (erule notify_neutral) simp

lemma trigger_end_neutral:
  "trigger_end a y s = (r, evs, s') \<Longrightarrow>
   \<forall>ev \<in> set evs. raised ev = None \<and> \<not> returned ev \<and> (\<forall>y. ev \<noteq> Inner y)"
  unfolding trigger_end_def by (erule notify_neutral) simp

lemma trigger_error_neutral:
  "trigger_error a e s = (r, evs, s') \<Longrightarrow>
   \<forall>ev \<in> set evs. raised ev = None \<and> \<not> returned ev \<and> (\<forall>y. ev \<noteq> Inner y)"
  unfolding trigger_error_def by (erule notify_neutral) simp

lemma except_handler_ends_with:
  assumes "except_handler a e evs0 s = (r, evs, s')"
    and "\<forall>ev \<in> set evs0. raised ev = None \<and> \<not> returned ev"
  shows "ends_with r evs \<and> (\<exists>e'. r = Inl e')
    \<and> (\<forall>x. Inner x \<in> set evs \<longleftrightarrow> Inner x \<in> set evs0)"
proof -
  obtain r4 ev4 s4 where t: "trigger_error a e s = (r4, ev4, s4)"
    by (cases "trigger_error a e s") auto
  then have n: "\<forall>ev \<in> set ev4. raised ev = None \<and> \<not> returned ev \<and> (\<forall>x. ev \<noteq> Inner x)"
    by (rule trigger_error_neutral)
  show ?thesis
  proof (cases r4)
    case (Inl e')
    with t assms(1) have "r = Inl e'" "evs = evs0 @ ev4 @ [Raised e']"
      by (auto simp: except_handler_def)
    with n assms(2) show ?thesis by (auto simp: ends_with_def)
  next
    case (Inr u)
    with t assms(1) have "r = Inl e" "evs = evs0 @ ev4 @ [Raised e]"
      by (auto simp: except_handler_def)
    with n assms(2) show ?thesis by (auto simp: ends_with_def)
  qed
qed

lemma except_Exception_ends_with:
  assumes "except_Exception a e evs0 s = (r, evs, s')"
    and "\<forall>ev \<in> set evs0. raised ev = None \<and> \<not> returned ev"
  shows "ends_with r evs \<and> (\<exists>e'. r = Inl e')
    \<and> (\<forall>x. Inner x \<in> set evs \<longleftrightarrow> Inner x \<in> set evs0)"
proof (cases "is_Exception e")
  case True
  with assms(1) have "except_handler a e evs0 s = (r, evs, s')"
    by (simp add: except_Exception_def)
  from except_handler_ends_with [OF this assms(2)] show ?thesis .
next
  case False
  with assms(1) have "r = Inl e" "evs = evs0 @ [Raised e]"
    by (simp_all add: except_Exception_def)
  with assms(2) show ?thesis by (auto simp: ends_with_def)
qed

lemma execute_ends_with:
  assumes "execute a x s = (r, evs, s')"
  shows "ends_with r evs"
    and "((\<forall>ev. Inner ev \<notin> set evs) \<and> (\<exists>e. r = Inl e))
       \<or> (\<exists>s1 r2 ev2 s2. run a x s1 = (r2, ev2, s2)
            \<and> (\<forall>ev. Inner ev \<in> set evs \<longleftrightarrow> ev \<in> set ev2)
            \<and> (\<forall>v. r = Inr v \<longrightarrow> r2 = Inr v))"
proof -
  obtain r1 ev1 s1 where t1: "trigger_start a x s = (r1, ev1, s1)"
    by (cases "trigger_start a x s") auto
  then have n1: "\<forall>ev \<in> set ev1. raised ev = None \<and> \<not> returned ev \<and> (\<forall>x. ev \<noteq> Inner x)"
    by (rule trigger_start_neutral)
  have both: "ends_with r evs \<and>
       (((\<forall>ev. Inner ev \<notin> set evs) \<and> (\<exists>e. r = Inl e))
       \<or> (\<exists>s1 r2 ev2 s2. run a x s1 = (r2, ev2, s2)
            \<and> (\<forall>ev. Inner ev \<in> set evs \<longleftrightarrow> ev \<in> set ev2)
            \<and> (\<forall>v. r = Inr v \<longrightarrow> r2 = Inr v)))"
  proof (cases r1)
    case (Inl e)
    with t1 assms have "except_Exception a e ev1 s1 = (r, evs, s')"
      by (simp add: execute_def)
    from except_Exception_ends_with [OF this] n1 show ?thesis by auto
  next
    case (Inr u)
    obtain r2 ev2 s2 where rn: "run a x s1 = (r2, ev2, s2)"
      by (cases "run a x s1") auto
    let ?evs2 = "ev1 @ Ran x # map Inner ev2"
    have n2: "\<forall>ev \<in> set ?evs2. raised ev = None \<and> \<not> returned ev"
      using n1 by auto
    have i2: "\<forall>y. Inner y \<in> set ?evs2 \<longleftrightarrow> y \<in> set ev2"
      using n1 by auto
    show ?thesis
    proof (cases r2)
      case (Inl e)
      with t1 Inr rn assms have "except_Exception a e ?evs2 s2 = (r, evs, s')"
        by (simp add: execute_def)
      from except_Exception_ends_with [OF this n2]
      have E: "ends_with r evs" "\<exists>e'. r = Inl e'"
        "\<forall>y. Inner y \<in> set evs \<longleftrightarrow> Inner y \<in> set ?evs2" by simp_all
      from E(2,3) i2 have "(\<forall>ev. Inner ev \<in> set evs \<longleftrightarrow> ev \<in> set ev2)
            \<and> (\<forall>v. r = Inr v \<longrightarrow> r2 = Inr v)" by auto
      with rn E(1) show ?thesis by blast
    next
      case r2: (Inr result)
      obtain r3 ev3 s3 where t3: "trigger_end a result s2 = (r3, ev3, s3)"
        by (cases "trigger_end a result s2") auto
      then have n3: "\<forall>ev \<in> set ev3. raised ev = None \<and> \<not> returned ev \<and> (\<forall>x. ev \<noteq> Inner x)"
        by (rule trigger_end_neutral)
      let ?evs3 = "ev1 @ Ran x # map Inner ev2 @ ev3"
      have n3': "\<forall>ev \<in> set ?evs3. raised ev = None \<and> \<not> returned ev"
        using n1 n3 by auto
      have i3: "\<forall>y. Inner y \<in> set ?evs3 \<longleftrightarrow> y \<in> set ev2"
        using n1 n3 by auto
      show ?thesis
      proof (cases r3)
        case (Inl e)
        with t1 Inr rn r2 t3 assms have "except_Exception a e ?evs3 s3 = (r, evs, s')"
          by (simp add: execute_def)
        from except_Exception_ends_with [OF this n3']
        have E: "ends_with r evs" "\<exists>e'. r = Inl e'"
          "\<forall>y. Inner y \<in> set evs \<longleftrightarrow> Inner y \<in> set ?evs3" by simp_all
        from E(2,3) i3 have "(\<forall>ev. Inner ev \<in> set evs \<longleftrightarrow> ev \<in> set ev2)
              \<and> (\<forall>v. r = Inr v \<longrightarrow> r2 = Inr v)" by auto
        with rn E(1) show ?thesis by blast
      next
        case r3: (Inr u')
        with t1 Inr rn r2 t3 assms have "r = Inr result" "evs = ?evs3 @ [Returned result]"
          by (auto simp: execute_def)
        with n3' i3 r2 have "ends_with r evs"
          "(\<forall>ev. Inner ev \<in> set evs \<longleftrightarrow> ev \<in> set ev2)
              \<and> (\<forall>v. r = Inr v \<longrightarrow> r2 = Inr v)"
          by (auto simp: ends_with_def)
        with rn show ?thesis by blast
      qed
    qed
  qed
  from both show "ends_with r evs" by blast
  from both show "((\<forall>ev. Inner ev \<notin> set evs) \<and> (\<exists>e. r = Inl e))
       \<or> (\<exists>s1 r2 ev2 s2. run a x s1 = (r2, ev2, s2)
            \<and> (\<forall>ev. Inner ev \<in> set evs \<longleftrightarrow> ev \<in> set ev2)
            \<and> (\<forall>v. r = Inr v \<longrightarrow> r2 = Inr v))" by blast
qed

section \<open>Properties of the orchestrator\<close>

text \<open>The runs of the orchestrator, by the point at which they end.\<close>

lemmas run_simps = OrchestratorAgent_run_def and_then_def in_stage_def evaluated_def

lemma and_thenE [consumes 1, case_names fail ok]:
  assumes "and_then m f s = (r, tr, s')"
  obtains e where "m s = (Inl e, tr, s')" "r = Inl e"
  | x tr1 s1 tr2 where "m s = (Inr x, tr1, s1)" "f x s1 = (r, tr2, s')" "tr = tr1 @ tr2"
  using assms by (auto simp: and_then_def split: prod.splits sum.splits)

lemma in_stageE [consumes 1]:
  assumes "in_stage tag m s = (r, tr, s')"
  obtains evs where "m s = (r, evs, s')" "tr = map tag evs"
  using assms by (auto simp: in_stage_def split: prod.splits)

lemma evaluatedE [consumes 1]:
  assumes "evaluated v s = (r, tr, s')"
  obtains "r = v" "tr = []" "s' = s"
  using assms by (auto simp: evaluated_def)

lemma run_elim [consumes 1, case_names fetch_fails analysis_fails parse_fails decode_fails
    validation_fails safety_fails evaluation_fails persistence_fails completed]:
  assumes "OrchestratorAgent_run lib self user_id s = (r, tr, s')"
  obtains
    e ev1 where
      "execute (snapchat_fetcher self) user_id s = (Inl e, ev1, s')"
      "r = Inl e" "tr = map FetchEv ev1"
  | a ev1 s1 e ev2 where
      "execute (snapchat_fetcher self) user_id s = (Inr a, ev1, s1)"
      "execute (data_analyzer self) a s1 = (Inl e, ev2, s')"
      "r = Inl e" "tr = map FetchEv ev1 @ map AnalysisEv ev2"
  | a ev1 s1 i ev2 e where
      "execute (snapchat_fetcher self) user_id s = (Inr a, ev1, s1)"
      "execute (data_analyzer self) a s1 = (Inr i, ev2, s')"
      "parse_snapchat_data lib a = Inl e"
      "r = Inl e" "tr = map FetchEv ev1 @ map AnalysisEv ev2"
  | a ev1 s1 i ev2 d e where
      "execute (snapchat_fetcher self) user_id s = (Inr a, ev1, s1)"
      "execute (data_analyzer self) a s1 = (Inr i, ev2, s')"
      "parse_snapchat_data lib a = Inr d" "decode_insights lib i = Inl e"
      "r = Inl e" "tr = map FetchEv ev1 @ map AnalysisEv ev2"
  | a ev1 s1 i ev2 s2 d t e ev3 where
      "execute (snapchat_fetcher self) user_id s = (Inr a, ev1, s1)"
      "execute (data_analyzer self) a s1 = (Inr i, ev2, s2)"
      "parse_snapchat_data lib a = Inr d" "decode_insights lib i = Inr t"
      "execute (test_agent self) (d, PStr t) s2 = (Inl e, ev3, s')"
      "r = Inl e" "tr = map FetchEv ev1 @ map AnalysisEv ev2 @ map ValidationEv ev3"
  | a ev1 s1 i ev2 s2 d t r3 ev3 s3 e ev4 where
      "execute (snapchat_fetcher self) user_id s = (Inr a, ev1, s1)"
      "execute (data_analyzer self) a s1 = (Inr i, ev2, s2)"
      "parse_snapchat_data lib a = Inr d" "decode_insights lib i = Inr t"
      "execute (test_agent self) (d, PStr t) s2 = (Inr r3, ev3, s3)"
      "execute (safety_agent self) (d, t) s3 = (Inl e, ev4, s')"
      "r = Inl e"
      "tr = map FetchEv ev1 @ map AnalysisEv ev2 @ map ValidationEv ev3 @ map SafetyEv ev4"
  | a ev1 s1 i ev2 s2 d t r3 ev3 s3 r4 ev4 s4 e ev5 where
      "execute (snapchat_fetcher self) user_id s = (Inr a, ev1, s1)"
      "execute (data_analyzer self) a s1 = (Inr i, ev2, s2)"
      "parse_snapchat_data lib a = Inr d" "decode_insights lib i = Inr t"
      "execute (test_agent self) (d, PStr t) s2 = (Inr r3, ev3, s3)"
      "execute (safety_agent self) (d, t) s3 = (Inr r4, ev4, s4)"
      "execute (evaluation_agent self) t s4 = (Inl e, ev5, s')"
      "r = Inl e"
      "tr = map FetchEv ev1 @ map AnalysisEv ev2 @ map ValidationEv ev3 @ map SafetyEv ev4
              @ map EvaluationEv ev5"
  | a ev1 s1 i ev2 s2 d t r3 ev3 s3 r4 ev4 s4 r5 ev5 s5 e ev6 where
      "execute (snapchat_fetcher self) user_id s = (Inr a, ev1, s1)"
      "execute (data_analyzer self) a s1 = (Inr i, ev2, s2)"
      "parse_snapchat_data lib a = Inr d" "decode_insights lib i = Inr t"
      "execute (test_agent self) (d, PStr t) s2 = (Inr r3, ev3, s3)"
      "execute (safety_agent self) (d, t) s3 = (Inr r4, ev4, s4)"
      "execute (evaluation_agent self) t s4 = (Inr r5, ev5, s5)"
      "execute (database_agent self) (user_id, d, t) s5 = (Inl e, ev6, s')"
      "r = Inl e"
      "tr = map FetchEv ev1 @ map AnalysisEv ev2 @ map ValidationEv ev3 @ map SafetyEv ev4
              @ map EvaluationEv ev5 @ map PersistenceEv ev6"
  | a ev1 s1 i ev2 s2 d t r3 ev3 s3 r4 ev4 s4 r5 ev5 s5 r6 ev6 where
      "execute (snapchat_fetcher self) user_id s = (Inr a, ev1, s1)"
      "execute (data_analyzer self) a s1 = (Inr i, ev2, s2)"
      "parse_snapchat_data lib a = Inr d" "decode_insights lib i = Inr t"
      "execute (test_agent self) (d, PStr t) s2 = (Inr r3, ev3, s3)"
      "execute (safety_agent self) (d, t) s3 = (Inr r4, ev4, s4)"
      "execute (evaluation_agent self) t s4 = (Inr r5, ev5, s5)"
      "execute (database_agent self) (user_id, d, t) s5 = (Inr r6, ev6, s')"
      "r = Inr (PDict [(''snapchatData'', d), (''insights'', PStr t)])"
      "tr = map FetchEv ev1 @ map AnalysisEv ev2 @ map ValidationEv ev3 @ map SafetyEv ev4
              @ map EvaluationEv ev5 @ map PersistenceEv ev6"
proof -
  note rules = that
  from assms [unfolded OrchestratorAgent_run_def] show thesis
  proof (cases rule: and_thenE)
    case (fail e)
    from fail(1) obtain ev1 where
      "execute (snapchat_fetcher self) user_id s = (Inl e, ev1, s')" "tr = map FetchEv ev1"
      by (rule in_stageE)
    with fail(2) show thesis by (intro rules(1))
  next
    case k1: (ok a tr1 s1 tr2)
    from k1(1) obtain ev1 where
      f1: "execute (snapchat_fetcher self) user_id s = (Inr a, ev1, s1)" and
      t1: "tr1 = map FetchEv ev1"
      by (rule in_stageE)
    from k1(2) show thesis
    proof (cases rule: and_thenE)
      case (fail e)
      from fail(1) obtain ev2 where
        "execute (data_analyzer self) a s1 = (Inl e, ev2, s')" "tr2 = map AnalysisEv ev2"
        by (rule in_stageE)
      with fail(2) f1 t1 k1(3) show thesis by (intro rules(2)) simp_all
    next
      case k2: (ok i tr1' s2 tr3)
      from k2(1) obtain ev2 where
        f2: "execute (data_analyzer self) a s1 = (Inr i, ev2, s2)" and
        t2: "tr1' = map AnalysisEv ev2"
        by (rule in_stageE)
      from k2(2) show thesis
      proof (cases rule: and_thenE)
        case (fail e)
        from fail(1) have "parse_snapchat_data lib a = Inl e" "tr3 = []" "s' = s2"
          by (auto elim: evaluatedE)
        with fail(2) f1 t1 k1(3) f2 t2 k2(3) show thesis by (intro rules(3)) simp_all
      next
        case k3: (ok d tr3' s2' tr4)
        from k3(1) have f3: "parse_snapchat_data lib a = Inr d" and t3: "tr3' = []"
          and s3: "s2' = s2"
          by (auto elim: evaluatedE)
        from k3(2) show thesis
        proof (cases rule: and_thenE)
          case (fail e)
          from fail(1) have "decode_insights lib i = Inl e" "tr4 = []" "s' = s2'"
            by (auto elim: evaluatedE)
          with fail(2) f1 t1 k1(3) f2 t2 k2(3) f3 t3 s3 k3(3) show thesis
            by (intro rules(4)) simp_all
        next
          case k4: (ok t tr4' s2'' tr5)
          from k4(1) have f4: "decode_insights lib i = Inr t" and t4: "tr4' = []"
            and s4: "s2'' = s2'"
            by (auto elim: evaluatedE)
          note pre4 = k1(3) k2(3) k3(3) k4(3) t1 t2 t3 t4 s3 s4
          from k4(2) show thesis
          proof (cases rule: and_thenE)
            case (fail e)
            from fail(1) obtain ev3 where
              "execute (test_agent self) (d, PStr t) s2'' = (Inl e, ev3, s')"
              "tr5 = map ValidationEv ev3"
              by (rule in_stageE)
            with fail(2) f1 f2 f3 f4 pre4 show thesis by (intro rules(5)) simp_all
          next
            case k5: (ok r3 tr5' s3 tr6)
            from k5(1) obtain ev3 where
              f5: "execute (test_agent self) (d, PStr t) s2'' = (Inr r3, ev3, s3)" and
              t5: "tr5' = map ValidationEv ev3"
              by (rule in_stageE)
            from k5(2) show thesis
            proof (cases rule: and_thenE)
              case (fail e)
              from fail(1) obtain ev4 where
                "execute (safety_agent self) (d, t) s3 = (Inl e, ev4, s')"
                "tr6 = map SafetyEv ev4"
                by (rule in_stageE)
              with fail(2) f1 f2 f3 f4 f5 pre4 t5 k5(3) show thesis
                by (intro rules(6)) simp_all
            next
              case k6: (ok r4 tr6' s4 tr7)
              from k6(1) obtain ev4 where
                f6: "execute (safety_agent self) (d, t) s3 = (Inr r4, ev4, s4)" and
                t6: "tr6' = map SafetyEv ev4"
                by (rule in_stageE)
              from k6(2) show thesis
              proof (cases rule: and_thenE)
                case (fail e)
                from fail(1) obtain ev5 where
                  "execute (evaluation_agent self) t s4 = (Inl e, ev5, s')"
                  "tr7 = map EvaluationEv ev5"
                  by (rule in_stageE)
                with fail(2) f1 f2 f3 f4 f5 f6 pre4 t5 k5(3) t6 k6(3) show thesis
                  by (intro rules(7)) simp_all
              next
                case k7: (ok r5 tr7' s5 tr8)
                from k7(1) obtain ev5 where
                  f7: "execute (evaluation_agent self) t s4 = (Inr r5, ev5, s5)" and
                  t7: "tr7' = map EvaluationEv ev5"
                  by (rule in_stageE)
                note pre7 = pre4 t5 k5(3) t6 k6(3) t7 k7(3)
                from k7(2) show thesis
                proof (cases rule: and_thenE)
                  case (fail e)
                  from fail(1) obtain ev6 where
                    "execute (database_agent self) (user_id, d, t) s5 = (Inl e, ev6, s')"
                    "tr8 = map PersistenceEv ev6"
                    by (rule in_stageE)
                  with fail(2) f1 f2 f3 f4 f5 f6 f7 pre7 show thesis
                    by (intro rules(8)) simp_all
                next
                  case k8: (ok r6 tr8' s6 tr9)
                  from k8(1) obtain ev6 where
                    f8: "execute (database_agent self) (user_id, d, t) s5 = (Inr r6, ev6, s6)"
                    and t8: "tr8' = map PersistenceEv ev6"
                    by (rule in_stageE)
                  from k8(2) have "r = Inr (PDict [(''snapchatData'', d), (''insights'', PStr t)])"
                    "tr9 = []" "s' = s6"
                    by (auto elim: evaluatedE)
                  with f1 f2 f3 f4 f5 f6 f7 f8 pre7 t8 k8(3) show thesis
                    by (intro rules(9)) simp_all
                qed
              qed
            qed
          qed
        qed
      qed
    qed
  qed
qed


lemma returned_events:
  assumes "execute a x s = (Inr v, evs, s1)"
  shows "\<forall>ev \<in> set evs. raised ev = None" and "Returned v \<in> set evs"
  using execute_ends_with(1) [OF assms] by (auto simp: ends_with_def)

lemma raised_events:
  assumes "execute a x s = (Inl e, evs, s1)"
  shows "\<forall>ev \<in> set evs. \<forall>e'. raised ev = Some e' \<longrightarrow> e' = e"
    and "Raised e \<in> set evs" and "\<forall>ev \<in> set evs. \<not> returned ev"
  using execute_ends_with(1) [OF assms] by (auto simp: ends_with_def)


subsection \<open>Runs of the orchestrator the constructor builds\<close>

lemma execute_logged:
  "execute \<lparr>class_name = cn, plugins = [LoggingPlugin], run = f\<rparr> x w =
     (case f x (logger_info ''Agent started'' [(''agent'', cn)] w) of
        (Inl e, evs, w1) \<Rightarrow>
          if is_Exception e
          then (Inl e, Started 0 x # Ran x # map Inner evs @ [Errored 0 e, Raised e],
                logger_error ''Agent error''
                  [(''agent'', cn), (''error'', exn_msg e), (''error_type'', exn_class e)] w1)
          else (Inl e, Started 0 x # Ran x # map Inner evs @ [Raised e], w1)
      | (Inr v, evs, w1) \<Rightarrow>
          (Inr v, Started 0 x # Ran x # map Inner evs @ [Ended 0 v, Returned v],
           logger_info ''Agent ended'' [(''agent'', cn)] w1))"
  by (simp add: execute_def trigger_start_def trigger_end_def trigger_error_def
      except_handler_def except_Exception_def LoggingPlugin_def split: prod.splits sum.splits)

lemma MissingCredentials_is_Exception [simp]: "is_Exception (MissingCredentials user_id)"
  by (simp add: MissingCredentials_def)

lemma fetcher_run_missing:
  assumes "case get_user (storage w) user_id of
             None \<Rightarrow> True
           | Some user \<Rightarrow> not_str (snapchat_client_id user) \<or> not_str (snapchat_api_key user)"
  shows "SnapchatDataFetcherAgent_run lib env user_id w = (Inl (MissingCredentials user_id), [], w)"
  using assms by (auto simp: SnapchatDataFetcherAgent_run_def split: option.splits)

lemma logger_storage [simp]:
  "storage (logger_info m c w) = storage w" "storage (logger_error m c w) = storage w"
  "artifact_service (logger_info m c w) = artifact_service w"
  "artifact_service (logger_error m c w) = artifact_service w"
  by (simp_all add: logger_info_def logger_error_def)


lemma run_missing_credentials:
  assumes "case get_user (storage w) user_id of
             None \<Rightarrow> True
           | Some user \<Rightarrow> not_str (snapchat_client_id user) \<or> not_str (snapchat_api_key user)"
  shows "OrchestratorAgent_run lib
        (OrchestratorAgent_sub_agents lib env :: (world, 'e) sub_agents) user_id w =
      (Inl (MissingCredentials user_id),
       [FetchEv (Started 0 user_id), FetchEv (Ran user_id),
        FetchEv (Errored 0 (MissingCredentials user_id)),
        FetchEv (Raised (MissingCredentials user_id))],
       logger_error ''Agent error''
         [(''agent'', ''SnapchatDataFetcherAgent''),
          (''error'', exn_msg (MissingCredentials user_id)),
          (''error_type'', exn_class (MissingCredentials user_id))]
         (logger_info ''Agent started'' [(''agent'', ''SnapchatDataFetcherAgent'')] w))"
proof -
  let ?w2 = "logger_info ''Agent started'' [(''agent'', ''SnapchatDataFetcherAgent'')] w"
  have "case get_user (storage ?w2) user_id of
             None \<Rightarrow> True
           | Some user \<Rightarrow> not_str (snapchat_client_id user) \<or> not_str (snapchat_api_key user)"
    using assms by simp
  from fetcher_run_missing [OF this]
  have "SnapchatDataFetcherAgent_run lib env user_id ?w2
      = (Inl (MissingCredentials user_id), ([] :: 'e list), ?w2)" .
  then have "execute (snapchat_fetcher
        (OrchestratorAgent_sub_agents lib env :: (world, 'e) sub_agents)) user_id w =
      (Inl (MissingCredentials user_id),
       [Started 0 user_id, Ran user_id, Errored 0 (MissingCredentials user_id),
        Raised (MissingCredentials user_id) :: (int, Artifact, 'e) event],
       logger_error ''Agent error''
         [(''agent'', ''SnapchatDataFetcherAgent''),
          (''error'', exn_msg (MissingCredentials user_id)),
          (''error_type'', exn_class (MissingCredentials user_id))] ?w2)"
    by (simp add: OrchestratorAgent_sub_agents_def execute_logged)
  then show ?thesis
    by (simp add: OrchestratorAgent_run_def and_then_def in_stage_def)
qed


subsection \<open>Failure of a stage\<close>

text \<open>
  Claim C2. For every subject identifier and every behaviour of the six sub-agents and
  their plugins: if the \<open>execute\<close> call of some stage raises within a run of the
  orchestrator, then the run raises the same exception and no event of a later stage
  occurs in it, that is, no hook and no \<^verbatim>\<open>run\<close> of a later stage is called.
\<close>

theorem stage_failure_ends_the_run:
  assumes "OrchestratorAgent_run lib self user_id s = (r, tr, s')"
    and "ev \<in> set tr" and "stage_raised ev = Some error"
  shows "r = Inl error \<and> (\<forall>ev' \<in> set tr. stage_index (stage_of ev') \<le> stage_index (stage_of ev))"
  using assms(1)
proof (cases rule: run_elim)
  case (fetch_fails e ev1)
  from raised_events(1) [OF fetch_fails(1)] assms(2,3) fetch_fails(2,3)
  show ?thesis by auto
next
  case (analysis_fails a ev1 s1 e ev2)
  from returned_events(1) [OF analysis_fails(1)] raised_events(1) [OF analysis_fails(2)]
    assms(2,3) analysis_fails(3,4)
  show ?thesis by auto
next
  case (parse_fails a ev1 s1 i ev2 e)
  from returned_events(1) [OF parse_fails(1)] returned_events(1) [OF parse_fails(2)]
    assms(2,3) parse_fails(4,5)
  show ?thesis by auto
next
  case (decode_fails a ev1 s1 i ev2 d e)
  from returned_events(1) [OF decode_fails(1)] returned_events(1) [OF decode_fails(2)]
    assms(2,3) decode_fails(5,6)
  show ?thesis by auto
next
  case (validation_fails a ev1 s1 i ev2 s2 d t e ev3)
  from returned_events(1) [OF validation_fails(1)] returned_events(1) [OF validation_fails(2)]
    raised_events(1) [OF validation_fails(5)] assms(2,3) validation_fails(6,7)
  show ?thesis by auto
next
  case (safety_fails a ev1 s1 i ev2 s2 d t r3 ev3 s3 e ev4)
  from returned_events(1) [OF safety_fails(1)] returned_events(1) [OF safety_fails(2)]
    returned_events(1) [OF safety_fails(5)] raised_events(1) [OF safety_fails(6)]
    assms(2,3) safety_fails(7,8)
  show ?thesis by auto
next
  case (evaluation_fails a ev1 s1 i ev2 s2 d t r3 ev3 s3 r4 ev4 s4 e ev5)
  from returned_events(1) [OF evaluation_fails(1)] returned_events(1) [OF evaluation_fails(2)]
    returned_events(1) [OF evaluation_fails(5)] returned_events(1) [OF evaluation_fails(6)]
    raised_events(1) [OF evaluation_fails(7)] assms(2,3) evaluation_fails(8,9)
  show ?thesis by auto
next
  case (persistence_fails a ev1 s1 i ev2 s2 d t r3 ev3 s3 r4 ev4 s4 r5 ev5 s5 e ev6)
  from returned_events(1) [OF persistence_fails(1)] returned_events(1) [OF persistence_fails(2)]
    returned_events(1) [OF persistence_fails(5)] returned_events(1) [OF persistence_fails(6)]
    returned_events(1) [OF persistence_fails(7)] raised_events(1) [OF persistence_fails(8)]
    assms(2,3) persistence_fails(9,10)
  show ?thesis by auto
next
  case (completed a ev1 s1 i ev2 s2 d t r3 ev3 s3 r4 ev4 s4 r5 ev5 s5 r6 ev6)
  from returned_events(1) [OF completed(1)] returned_events(1) [OF completed(2)]
    returned_events(1) [OF completed(5)] returned_events(1) [OF completed(6)]
    returned_events(1) [OF completed(7)] returned_events(1) [OF completed(8)]
    assms(2,3) completed(9,10)
  show ?thesis by auto
qed

theorem stage_failure_ends_the_run_witness:
  "FetchEv (Raised (MissingCredentials 999))
     \<in> set (fst (snd (OrchestratorAgent_run test_lib
          (OrchestratorAgent_sub_agents test_lib test_environ :: (world, unit) sub_agents)
          999 test_world)))
   \<and> fst (OrchestratorAgent_run test_lib
          (OrchestratorAgent_sub_agents test_lib test_environ :: (world, unit) sub_agents)
          999 test_world) = Inl (MissingCredentials 999)
   \<and> map stage_of (fst (snd (OrchestratorAgent_run test_lib
          (OrchestratorAgent_sub_agents test_lib test_environ :: (world, unit) sub_agents)
          999 test_world))) = [Fetch, Fetch, Fetch, Fetch]"
proof -
  have h: "case get_user (storage test_world) 999 of
             None \<Rightarrow> True
           | Some user \<Rightarrow> not_str (snapchat_client_id user) \<or> not_str (snapchat_api_key user)"
    by (simp add: test_world_def get_user_def)
  note run = run_missing_credentials [OF h, of test_lib test_environ, where ?'e = unit]
  have mem: "FetchEv (Raised (MissingCredentials 999))
     \<in> set [FetchEv (Started 0 999), FetchEv (Ran 999),
        FetchEv (Errored 0 (MissingCredentials 999)),
        (FetchEv (Raised (MissingCredentials 999)) :: unit stage_event)]"
    by simp
  have sr: "stage_raised (FetchEv (Raised (MissingCredentials 999)) :: unit stage_event)
      = Some (MissingCredentials 999)"
    by simp
  from stage_failure_ends_the_run [OF run mem sr] show ?thesis
    by (simp add: run)
qed

text \<open>
  Claim C4. For every subject identifier whose record is absent from the directory, or
  whose record has an absent or empty client id or API key, the run of the orchestrator
  fails with the missing-credentials exception; only the fetch stage has been entered, and
  the artifact store and the storage service are as they were before the run.
\<close>

theorem missing_credentials_stop_the_run:
  assumes "case get_user (storage w) user_id of
             None \<Rightarrow> True
           | Some user \<Rightarrow> not_str (snapchat_client_id user) \<or> not_str (snapchat_api_key user)"
  shows "\<exists>w'. execute (OrchestratorAgent lib env :: (int, pyval, world, 'e stage_event) Agent)
        user_id w =
      (Inl (MissingCredentials user_id),
       [Started 0 user_id, Ran user_id,
        Inner (FetchEv (Started 0 user_id)), Inner (FetchEv (Ran user_id)),
        Inner (FetchEv (Errored 0 (MissingCredentials user_id))),
        Inner (FetchEv (Raised (MissingCredentials user_id))),
        Errored 0 (MissingCredentials user_id), Raised (MissingCredentials user_id)],
       w')
     \<and> artifact_service w' = artifact_service w \<and> storage w' = storage w"
proof -
  let ?w1 = "logger_info ''Agent started'' [(''agent'', ''OrchestratorAgent'')] w"
  have "case get_user (storage ?w1) user_id of
             None \<Rightarrow> True
           | Some user \<Rightarrow> not_str (snapchat_client_id user) \<or> not_str (snapchat_api_key user)"
    using assms by simp
  from run_missing_credentials [OF this, of lib env, where ?'e = 'e] show ?thesis
    by (simp add: OrchestratorAgent_def orchestrator_def execute_logged)
qed


theorem missing_credentials_stop_the_run_witness:
  "\<exists>w'. execute (OrchestratorAgent test_lib test_environ :: (int, pyval, world, unit stage_event) Agent)
        999 test_world =
      (Inl (ValueError ''Snapchat credentials not found for user 999''),
       [Started 0 999, Ran 999,
        Inner (FetchEv (Started 0 999)), Inner (FetchEv (Ran 999)),
        Inner (FetchEv (Errored 0 (ValueError ''Snapchat credentials not found for user 999''))),
        Inner (FetchEv (Raised (ValueError ''Snapchat credentials not found for user 999''))),
        Errored 0 (ValueError ''Snapchat credentials not found for user 999''),
        Raised (ValueError ''Snapchat credentials not found for user 999'')],
       w')
     \<and> artifact_service w' = [] \<and> storage w' = storage test_world"
proof -
  have h: "case get_user (storage test_world) 999 of
             None \<Rightarrow> True
           | Some user \<Rightarrow> not_str (snapchat_client_id user) \<or> not_str (snapchat_api_key user)"
    by (simp add: test_world_def get_user_def)
  have m: "MissingCredentials 999 = ValueError ''Snapchat credentials not found for user 999''"
    by code_simp
  have a: "artifact_service test_world = []" by (simp add: test_world_def)
  from missing_credentials_stop_the_run [OF h, of test_lib test_environ, where ?'e = unit]
  show ?thesis by (simp only: m a)
qed

subsection \<open>Complete runs\<close>

lemma generate_ai_insight_nonempty: "generate_ai_insight env data \<noteq> []"
proof -
  have "\<forall>t \<in> set insights_list. t \<noteq> []"
    by (simp add: insights_list_def)
  moreover have "choice_draw env mod length insights_list < length insights_list"
    by (simp add: insights_list_def)
  ultimately show ?thesis
    unfolding generate_ai_insight_def using nth_mem by blast
qed

lemma fetched_data_valid:
  assumes "fetch_snapchat_data env client_id api_key = Inr data" and "t \<noteq> []"
  shows "TestAgent_run data (PStr t) = Inr True"
  using assms
  by (auto simp: fetch_snapchat_data_def TestAgent_run_def split: if_splits)

lemma fetch_stage_ok:
  assumes "get_user (storage w) user_id = Some user"
    and "snapchat_client_id user = Some cid" and "cid \<noteq> []"
    and "snapchat_api_key user = Some key" and "key \<noteq> []"
    and "fetch_snapchat_data env cid key = Inr data"
  shows "\<exists>w'. execute (snapchat_fetcher
        (OrchestratorAgent_sub_agents lib env :: (world, 'e) sub_agents)) user_id w =
      (Inr \<lparr>name = ''snapchat-data-'' @ str_int user_id,
            content = encode_utf8 lib (json_dumps lib data), mime_type = ''application/json''\<rparr>,
       [Started 0 user_id, Ran user_id,
        Ended 0 \<lparr>name = ''snapchat-data-'' @ str_int user_id,
            content = encode_utf8 lib (json_dumps lib data), mime_type = ''application/json''\<rparr>,
        Returned \<lparr>name = ''snapchat-data-'' @ str_int user_id,
            content = encode_utf8 lib (json_dumps lib data), mime_type = ''application/json''\<rparr>],
       w')
     \<and> storage w' = storage w"
  using assms
  by (simp add: OrchestratorAgent_sub_agents_def execute_logged SnapchatDataFetcherAgent_run_def
      artifact_service_create_def Let_def)

lemma analysis_stage_ok:
  assumes "loads_utf8 lib (content a) = Inr data"
  shows "\<exists>w'. execute (data_analyzer
        (OrchestratorAgent_sub_agents lib env :: (world, 'e) sub_agents)) a w =
      (Inr \<lparr>name = ''insight-'' @ name a,
            content = encode_utf8 lib (generate_ai_insight env data), mime_type = ''text/plain''\<rparr>,
       [Started 0 a, Ran a,
        Ended 0 \<lparr>name = ''insight-'' @ name a,
            content = encode_utf8 lib (generate_ai_insight env data), mime_type = ''text/plain''\<rparr>,
        Returned \<lparr>name = ''insight-'' @ name a,
            content = encode_utf8 lib (generate_ai_insight env data), mime_type = ''text/plain''\<rparr>],
       w')
     \<and> storage w' = storage w"
  using assms
  by (simp add: OrchestratorAgent_sub_agents_def execute_logged DataAnalysisAgent_run_def
      artifact_service_create_def Let_def)

lemma validation_stage_ok:
  assumes "TestAgent_run data (PStr t) = Inr True"
  shows "\<exists>w'. execute (test_agent
        (OrchestratorAgent_sub_agents lib env :: (world, 'e) sub_agents)) (data, PStr t) w =
      (Inr True,
       [Started 0 (data, PStr t), Ran (data, PStr t), Ended 0 True, Returned True], w')
     \<and> storage w' = storage w"
  using assms
  by (simp add: OrchestratorAgent_sub_agents_def execute_logged TestAgent_run_agent_def)

lemma safety_stage_ok:
  "\<exists>w'. execute (safety_agent
        (OrchestratorAgent_sub_agents lib env :: (world, 'e) sub_agents)) (data, t) w =
      (Inr True, [Started 0 (data, t), Ran (data, t), Ended 0 True, Returned True], w')
     \<and> storage w' = storage w"
  by (simp add: OrchestratorAgent_sub_agents_def execute_logged SafetyAgent_run_def
      contains_pii_def contains_inappropriate_content_def)

lemma evaluation_stage_ok:
  "\<exists>w'. execute (evaluation_agent
        (OrchestratorAgent_sub_agents lib env :: (world, 'e) sub_agents)) t w =
      (Inr True, [Started 0 t, Ran t, Ended 0 True, Returned True], w')
     \<and> storage w' = storage w"
  by (simp add: OrchestratorAgent_sub_agents_def execute_logged EvaluationAgent_run_def
      is_relevant_def is_actionable_def)

lemma persistence_stage_ok:
  "\<exists>w'. execute (database_agent
        (OrchestratorAgent_sub_agents lib env :: (world, 'e) sub_agents)) (user_id, data, t) w =
      (Inr True,
       [Started 0 (user_id, data, t), Ran (user_id, data, t), Ended 0 True, Returned True], w')
     \<and> get_snapchat_data (storage w') user_id = Some data
     \<and> get_ai_insight (storage w') user_id = Some t"
  by (simp add: OrchestratorAgent_sub_agents_def execute_logged DatabaseAgent_run_def
      save_snapchat_data_def save_ai_insight_def get_snapchat_data_def get_ai_insight_def)


lemma run_completes:
  assumes u: "get_user (storage w) user_id = Some user"
    and c: "snapchat_client_id user = Some cid" "cid \<noteq> []"
    and k: "snapchat_api_key user = Some key" "key \<noteq> []"
    and f: "fetch_snapchat_data env cid key = Inr data"
    and rt1: "loads_utf8 lib (encode_utf8 lib (json_dumps lib data)) = Inr data"
    and rt2: "decode_utf8 lib (encode_utf8 lib (generate_ai_insight env data))
               = Inr (generate_ai_insight env data)"
  shows "\<exists>a i w'. OrchestratorAgent_run lib
        (OrchestratorAgent_sub_agents lib env :: (world, 'e) sub_agents) user_id w =
      (Inr (PDict [(''snapchatData'', data), (''insights'', PStr (generate_ai_insight env data))]),
       map FetchEv [Started 0 user_id, Ran user_id, Ended 0 a, Returned a]
         @ map AnalysisEv [Started 0 a, Ran a, Ended 0 i, Returned i]
         @ map ValidationEv
             [Started 0 (data, PStr (generate_ai_insight env data)),
              Ran (data, PStr (generate_ai_insight env data)), Ended 0 True, Returned True]
         @ map SafetyEv
             [Started 0 (data, generate_ai_insight env data),
              Ran (data, generate_ai_insight env data), Ended 0 True, Returned True]
         @ map EvaluationEv
             [Started 0 (generate_ai_insight env data), Ran (generate_ai_insight env data),
              Ended 0 True, Returned True]
         @ map PersistenceEv
             [Started 0 (user_id, data, generate_ai_insight env data),
              Ran (user_id, data, generate_ai_insight env data), Ended 0 True, Returned True],
       w')
     \<and> get_snapchat_data (storage w') user_id = Some data
     \<and> get_ai_insight (storage w') user_id = Some (generate_ai_insight env data)"
proof -
  define t where "t = generate_ai_insight env data"
  define a where "a = \<lparr>name = ''snapchat-data-'' @ str_int user_id,
            content = encode_utf8 lib (json_dumps lib data), mime_type = ''application/json''\<rparr>"
  define i where "i = \<lparr>name = ''insight-'' @ name a,
            content = encode_utf8 lib t, mime_type = ''text/plain''\<rparr>"
  let ?self = "OrchestratorAgent_sub_agents lib env :: (world, 'e) sub_agents"
  from fetch_stage_ok [OF u c k f, of lib, where ?'e = 'e] obtain w1 where
    s1: "execute (snapchat_fetcher ?self) user_id w =
      (Inr a, [Started 0 user_id, Ran user_id, Ended 0 a, Returned a], w1)"
    unfolding a_def by blast
  have p: "loads_utf8 lib (content a) = Inr data" using rt1 by (simp add: a_def)
  from analysis_stage_ok [OF p, of env w1, where ?'e = 'e] obtain w2 where
    s2: "execute (data_analyzer ?self) a w1 =
      (Inr i, [Started 0 a, Ran a, Ended 0 i, Returned i], w2)"
    unfolding i_def t_def by blast
  have pd: "parse_snapchat_data lib a = Inr data"
    using p by (simp add: parse_snapchat_data_def)
  have di: "decode_insights lib i = Inr t"
    using rt2 by (simp add: decode_insights_def i_def t_def)
  have "t \<noteq> []" unfolding t_def by (rule generate_ai_insight_nonempty)
  with f have v: "TestAgent_run data (PStr t) = Inr True"
    by (rule fetched_data_valid)
  from validation_stage_ok [OF v, of lib env w2, where ?'e = 'e] obtain w3 where
    s3: "execute (test_agent ?self) (data, PStr t) w2 =
      (Inr True, [Started 0 (data, PStr t), Ran (data, PStr t), Ended 0 True, Returned True], w3)"
    by blast
  from safety_stage_ok [of lib env data t w3, where ?'e = 'e] obtain w4 where
    s4: "execute (safety_agent ?self) (data, t) w3 =
      (Inr True, [Started 0 (data, t), Ran (data, t), Ended 0 True, Returned True], w4)"
    by blast
  from evaluation_stage_ok [of lib env t w4, where ?'e = 'e] obtain w5 where
    s5: "execute (evaluation_agent ?self) t w4 =
      (Inr True, [Started 0 t, Ran t, Ended 0 True, Returned True], w5)"
    by blast
  from persistence_stage_ok [of lib env user_id data t w5, where ?'e = 'e] obtain w6 where
    s6: "execute (database_agent ?self) (user_id, data, t) w5 =
      (Inr True,
       [Started 0 (user_id, data, t), Ran (user_id, data, t), Ended 0 True, Returned True], w6)"
    and st: "get_snapchat_data (storage w6) user_id = Some data"
      "get_ai_insight (storage w6) user_id = Some t"
    by blast
  have "OrchestratorAgent_run lib ?self user_id w =
      (Inr (PDict [(''snapchatData'', data), (''insights'', PStr t)]),
       map FetchEv [Started 0 user_id, Ran user_id, Ended 0 a, Returned a]
         @ map AnalysisEv [Started 0 a, Ran a, Ended 0 i, Returned i]
         @ map ValidationEv
             [Started 0 (data, PStr t), Ran (data, PStr t), Ended 0 True, Returned True]
         @ map SafetyEv [Started 0 (data, t), Ran (data, t), Ended 0 True, Returned True]
         @ map EvaluationEv [Started 0 t, Ran t, Ended 0 True, Returned True]
         @ map PersistenceEv
             [Started 0 (user_id, data, t), Ran (user_id, data, t), Ended 0 True,
              Returned True],
       w6)"
    unfolding OrchestratorAgent_run_def
    by (simp add: and_then_def in_stage_def evaluated_def s1 s2 pd di s3 s4 s5 s6)
  with st show ?thesis unfolding t_def by blast
qed

lemma test_lib_utf8: "decode_utf8 test_lib (encode_utf8 test_lib s) = Inr s"
proof -
  have "\<And>c. char_of (unat (of_nat (of_char c) :: 8 word)) = c"
    by (simp add: unat_of_nat)
  then show ?thesis by (simp add: test_lib_def comp_def)
qed

lemma test_lib_json:
  assumes "fetch_snapchat_data test_environ ''cid'' ''key'' = Inr data"
  shows "loads_utf8 test_lib (encode_utf8 test_lib (json_dumps test_lib data)) = Inr data"
proof -
  have "loads_utf8 test_lib (encode_utf8 test_lib (json_dumps test_lib data))
      = json_loads test_lib (json_dumps test_lib data)"
    by (simp add: loads_utf8_def test_lib_utf8)
  also have "\<dots> = Inr data" using assms by (simp add: test_lib_def)
  finally show ?thesis .
qed

lemma test_world_user:
  "get_user (storage test_world) 1 =
     Some \<lparr>User_id = 1, username = ''test_user'', snapchat_client_id = Some ''cid'',
           snapchat_api_key = Some ''key''\<rparr>"
  by (simp add: test_world_def get_user_def)

lemma test_fetch:
  "\<exists>data. fetch_snapchat_data test_environ ''cid'' ''key'' = Inr data
     \<and> py_get data ''totalFollowers'' = Inr (PInt 24583)"
  by (simp add: fetch_snapchat_data_def)

lemma completed_trace_stages:
  assumes "Returned a \<in> set ev1" "Returned i \<in> set ev2" "Returned r3 \<in> set ev3"
    "Returned r4 \<in> set ev4" "Returned r5 \<in> set ev5" "Returned r6 \<in> set ev6"
  shows "\<exists>ev \<in> set (map FetchEv ev1 @ map AnalysisEv ev2 @ map ValidationEv ev3
            @ map SafetyEv ev4 @ map EvaluationEv ev5 @ map PersistenceEv ev6).
          stage_of ev = st \<and> stage_returned ev"
proof (cases st)
  case Fetch
  with assms(1) show ?thesis by (intro bexI [of _ "FetchEv (Returned a)"]) auto
next
  case Analysis
  with assms(2) show ?thesis by (intro bexI [of _ "AnalysisEv (Returned i)"]) auto
next
  case Validation
  with assms(3) show ?thesis by (intro bexI [of _ "ValidationEv (Returned r3)"]) auto
next
  case Safety
  with assms(4) show ?thesis by (intro bexI [of _ "SafetyEv (Returned r4)"]) auto
next
  case Evaluation
  with assms(5) show ?thesis by (intro bexI [of _ "EvaluationEv (Returned r5)"]) auto
next
  case Persistence
  with assms(6) show ?thesis by (intro bexI [of _ "PersistenceEv (Returned r6)"]) auto
qed

lemma run_completed_trace:
  assumes "OrchestratorAgent_run lib self user_id s = (Inr bundle, tr, s')"
  shows "(\<forall>st. \<exists>ev \<in> set tr. stage_of ev = st \<and> stage_returned ev)
    \<and> (\<forall>ev \<in> set tr. stage_raised ev = None)
    \<and> (\<exists>a i d t. FetchEv (Returned a) \<in> set tr \<and> AnalysisEv (Returned i) \<in> set tr
          \<and> parse_snapchat_data lib a = Inr d \<and> decode_insights lib i = Inr t
          \<and> bundle = PDict [(''snapchatData'', d), (''insights'', PStr t)])"
  using assms
proof (cases rule: run_elim)
  case (completed a ev1 s1 i ev2 s2 d t r3 ev3 s3 r4 ev4 s4 r5 ev5 s5 r6 ev6)
  note R = returned_events(2) [OF completed(1)] returned_events(2) [OF completed(2)]
    returned_events(2) [OF completed(5)] returned_events(2) [OF completed(6)]
    returned_events(2) [OF completed(7)] returned_events(2) [OF completed(8)]
  note Q = returned_events(1) [OF completed(1)] returned_events(1) [OF completed(2)]
    returned_events(1) [OF completed(5)] returned_events(1) [OF completed(6)]
    returned_events(1) [OF completed(7)] returned_events(1) [OF completed(8)]
  have 1: "\<forall>st. \<exists>ev \<in> set tr. stage_of ev = st \<and> stage_returned ev"
    unfolding completed(10) using completed_trace_stages [OF R] by blast
  have 2: "\<forall>ev \<in> set tr. stage_raised ev = None"
    unfolding completed(10) using Q by auto
  have 3: "FetchEv (Returned a) \<in> set tr" "AnalysisEv (Returned i) \<in> set tr"
    unfolding completed(10) using R(1,2) by auto
  from completed(9) have "bundle = PDict [(''snapchatData'', d), (''insights'', PStr t)]"
    by simp
  with 1 2 3 completed(3,4) show ?thesis by blast
qed simp_all


lemma orchestrator_completes:
  assumes u: "get_user (storage w) user_id = Some user"
    and c: "snapchat_client_id user = Some cid" "cid \<noteq> []"
    and k: "snapchat_api_key user = Some key" "key \<noteq> []"
    and f: "fetch_snapchat_data env cid key = Inr data"
    and rt1: "loads_utf8 lib (encode_utf8 lib (json_dumps lib data)) = Inr data"
    and rt2: "decode_utf8 lib (encode_utf8 lib (generate_ai_insight env data))
               = Inr (generate_ai_insight env data)"
  obtains tr w' where
      "execute (OrchestratorAgent lib env :: (int, pyval, world, 'e stage_event) Agent) user_id w =
        (Inr (PDict [(''snapchatData'', data),
                     (''insights'', PStr (generate_ai_insight env data))]),
         Started 0 user_id # Ran user_id # map Inner tr
           @ [Ended 0 (PDict [(''snapchatData'', data),
                     (''insights'', PStr (generate_ai_insight env data))]),
              Returned (PDict [(''snapchatData'', data),
                     (''insights'', PStr (generate_ai_insight env data))])],
         w')"
      "map stage_of (filter stage_returned tr)
            = [Fetch, Analysis, Validation, Safety, Evaluation, Persistence]"
      "get_snapchat_data (storage w') user_id = Some data"
      "get_ai_insight (storage w') user_id = Some (generate_ai_insight env data)"
proof -
  let ?w1 = "logger_info ''Agent started'' [(''agent'', ''OrchestratorAgent'')] w"
  let ?t = "generate_ai_insight env data"
  have u1: "get_user (storage ?w1) user_id = Some user" using u by simp
  from run_completes [OF u1 c k f rt1 rt2, where ?'e = 'e] obtain a i w2 where
    rn: "OrchestratorAgent_run lib
        (OrchestratorAgent_sub_agents lib env :: (world, 'e) sub_agents) user_id ?w1 =
      (Inr (PDict [(''snapchatData'', data), (''insights'', PStr ?t)]),
       map FetchEv [Started 0 user_id, Ran user_id, Ended 0 a, Returned a]
         @ map AnalysisEv [Started 0 a, Ran a, Ended 0 i, Returned i]
         @ map ValidationEv
             [Started 0 (data, PStr ?t), Ran (data, PStr ?t), Ended 0 True, Returned True]
         @ map SafetyEv [Started 0 (data, ?t), Ran (data, ?t), Ended 0 True, Returned True]
         @ map EvaluationEv [Started 0 ?t, Ran ?t, Ended 0 True, Returned True]
         @ map PersistenceEv
             [Started 0 (user_id, data, ?t), Ran (user_id, data, ?t), Ended 0 True,
              Returned True],
       w2)"
    and st: "get_snapchat_data (storage w2) user_id = Some data"
      "get_ai_insight (storage w2) user_id = Some ?t"
    by blast
  define tr :: "'e stage_event list" where
    "tr = map FetchEv [Started 0 user_id, Ran user_id, Ended 0 a, Returned a]
         @ map AnalysisEv [Started 0 a, Ran a, Ended 0 i, Returned i]
         @ map ValidationEv
             [Started 0 (data, PStr ?t), Ran (data, PStr ?t), Ended 0 True, Returned True]
         @ map SafetyEv [Started 0 (data, ?t), Ran (data, ?t), Ended 0 True, Returned True]
         @ map EvaluationEv [Started 0 ?t, Ran ?t, Ended 0 True, Returned True]
         @ map PersistenceEv
             [Started 0 (user_id, data, ?t), Ran (user_id, data, ?t), Ended 0 True,
              Returned True]"
  have stages: "map stage_of (filter stage_returned tr)
            = [Fetch, Analysis, Validation, Safety, Evaluation, Persistence]"
    by (simp add: tr_def)
  from rn have rn': "OrchestratorAgent_run lib
        (OrchestratorAgent_sub_agents lib env :: (world, 'e) sub_agents) user_id ?w1 =
      (Inr (PDict [(''snapchatData'', data), (''insights'', PStr ?t)]), tr, w2)"
    by (simp only: tr_def)
  have e1: "execute (OrchestratorAgent lib env :: (int, pyval, world, 'e stage_event) Agent)
          user_id w =
        (Inr (PDict [(''snapchatData'', data), (''insights'', PStr ?t)]),
         Started 0 user_id # Ran user_id # map Inner tr
           @ [Ended 0 (PDict [(''snapchatData'', data), (''insights'', PStr ?t)]),
              Returned (PDict [(''snapchatData'', data), (''insights'', PStr ?t)])],
         logger_info ''Agent ended'' [(''agent'', ''OrchestratorAgent'')] w2)"
    by (simp add: OrchestratorAgent_def orchestrator_def execute_logged rn')
  have s1: "get_snapchat_data
      (storage (logger_info ''Agent ended'' [(''agent'', ''OrchestratorAgent'')] w2)) user_id
        = Some data"
    "get_ai_insight
      (storage (logger_info ''Agent ended'' [(''agent'', ''OrchestratorAgent'')] w2)) user_id
        = Some ?t"
    using st by simp_all
  show thesis by (rule that [OF e1 stages s1])
qed


text \<open>
  Claim C7. For every run of an orchestrator, with any plugins and sub-agents: if
  \<open>execute\<close> returns a result bundle, then every one of the six stages has returned in
  that run and none has raised, and the bundle is the decoded content of the artifact the
  fetch stage returned together with the decoded content of the artifact the analysis
  stage returned. If some stage raised, the caller gets an exception, which carries no
  bundle.
\<close>

theorem bundle_only_after_all_stages:
  assumes "execute (orchestrator lib ps self) user_id s = (r, evs, s')"
  shows "(\<forall>bundle. r = Inr bundle \<longrightarrow>
           (\<forall>st. \<exists>ev. Inner ev \<in> set evs \<and> stage_of ev = st \<and> stage_returned ev)
           \<and> (\<forall>ev. Inner ev \<in> set evs \<longrightarrow> stage_raised ev = None)
           \<and> (\<exists>a i d t. Inner (FetchEv (Returned a)) \<in> set evs
                 \<and> Inner (AnalysisEv (Returned i)) \<in> set evs
                 \<and> parse_snapchat_data lib a = Inr d \<and> decode_insights lib i = Inr t
                 \<and> bundle = PDict [(''snapchatData'', d), (''insights'', PStr t)]))
     \<and> ((\<exists>ev e. Inner ev \<in> set evs \<and> stage_raised ev = Some e) \<longrightarrow> (\<exists>e. r = Inl e))"
proof -
  have main: "(\<forall>st. \<exists>ev. Inner ev \<in> set evs \<and> stage_of ev = st \<and> stage_returned ev)
           \<and> (\<forall>ev. Inner ev \<in> set evs \<longrightarrow> stage_raised ev = None)
           \<and> (\<exists>a i d t. Inner (FetchEv (Returned a)) \<in> set evs
                 \<and> Inner (AnalysisEv (Returned i)) \<in> set evs
                 \<and> parse_snapchat_data lib a = Inr d \<and> decode_insights lib i = Inr t
                 \<and> result = PDict [(''snapchatData'', d), (''insights'', PStr t)])"
    if b: "r = Inr result" for result
  proof -
    from execute_ends_with(2) [OF assms] b obtain s1 r2 tr s2 where
      rn: "run (orchestrator lib ps self) user_id s1 = (r2, tr, s2)" and
      inner: "\<forall>ev. Inner ev \<in> set evs \<longleftrightarrow> ev \<in> set tr" and
      r2: "r2 = Inr result"
      by auto
    from rn r2 have "OrchestratorAgent_run lib self user_id s1 = (Inr result, tr, s2)"
      by (simp add: orchestrator_def)
    from run_completed_trace [OF this] inner show ?thesis by (simp add: Bex_def)
  qed
  have "\<exists>e. r = Inl e" if "\<exists>ev e. Inner ev \<in> set evs \<and> stage_raised ev = Some e"
  proof (cases r)
    case (Inl e)
    then show ?thesis by blast
  next
    case (Inr result)
    from main [OF this] that show ?thesis by auto
  qed
  with main show ?thesis by blast
qed

theorem bundle_only_after_all_stages_witness:
  "\<exists>result evs w' a i d t.
      execute (orchestrator test_lib [LoggingPlugin]
                 (OrchestratorAgent_sub_agents test_lib test_environ)
                 :: (int, pyval, world, unit stage_event) Agent) 1 test_world =
        (Inr result, evs, w')
      \<and> Inner (FetchEv (Returned a)) \<in> set evs
      \<and> Inner (AnalysisEv (Returned i)) \<in> set evs
      \<and> parse_snapchat_data test_lib a = Inr d \<and> decode_insights test_lib i = Inr t
      \<and> result = PDict [(''snapchatData'', d), (''insights'', PStr t)]"
proof -
  from test_fetch obtain data where
    f: "fetch_snapchat_data test_environ ''cid'' ''key'' = Inr data"
    by blast
  have c: "snapchat_client_id \<lparr>User_id = 1, username = ''test_user'',
        snapchat_client_id = Some ''cid'', snapchat_api_key = Some ''key''\<rparr> = Some ''cid''"
    "''cid'' \<noteq> []" by simp_all
  have k: "snapchat_api_key \<lparr>User_id = 1, username = ''test_user'',
        snapchat_client_id = Some ''cid'', snapchat_api_key = Some ''key''\<rparr> = Some ''key''"
    "''key'' \<noteq> []" by simp_all
  obtain tr :: "unit stage_event list" and w' where
    ex: "execute (OrchestratorAgent test_lib test_environ
                 :: (int, pyval, world, unit stage_event) Agent) 1 test_world =
        (Inr (PDict [(''snapchatData'', data),
                     (''insights'', PStr (generate_ai_insight test_environ data))]),
         Started 0 1 # Ran 1 # map Inner tr
           @ [Ended 0 (PDict [(''snapchatData'', data),
                     (''insights'', PStr (generate_ai_insight test_environ data))]),
              Returned (PDict [(''snapchatData'', data),
                     (''insights'', PStr (generate_ai_insight test_environ data))])],
         w')"
    by (rule orchestrator_completes
        [OF test_world_user c(1) c(2) k(1) k(2) f test_lib_json [OF f] test_lib_utf8])
  note ex' = ex [unfolded OrchestratorAgent_def]
  from bundle_only_after_all_stages [OF ex'] ex' show ?thesis by blast
qed




subsection \<open>Malformed artifacts\<close>









section \<open>Properties of the validation stage\<close>

text \<open>
  Claim C5, as stated, fails: a raw value that is present and contains the follower-count
  field, with an insight that is a non-absent string, is rejected when the follower count
  is 0.
\<close>

theorem validation_rejects_present_field_counterexample:
  "TestAgent_run (PDict [(''totalFollowers'', PInt 0)]) (PStr ''ok'') = Inl InvalidData"
  by (simp add: TestAgent_run_def)

text \<open>
  Claim C5, amended. The validation stage fails with the invalid-data condition exactly
  when the raw value is falsy (absent or empty) or is a dictionary whose follower-count
  entry is missing or falsy. It fails with the invalid-insight condition exactly when the
  raw value is a dictionary with a truthy follower count and the insight is falsy (absent
  or the empty string) or not a string. It succeeds exactly when the raw value is a
  dictionary with a truthy follower count and the insight is a non-empty string.
\<close>

theorem validation_outcomes:
  "(TestAgent_run d i = Inl InvalidData \<longleftrightarrow>
      \<not> truthy d \<or> (\<exists>kvs. d = PDict kvs \<and>
         (case map_of kvs ''totalFollowers'' of None \<Rightarrow> True | Some v \<Rightarrow> \<not> truthy v)))
   \<and> (TestAgent_run d i = Inl InvalidInsight \<longleftrightarrow>
      (\<exists>kvs v. d = PDict kvs \<and> map_of kvs ''totalFollowers'' = Some v \<and> truthy v)
       \<and> (\<not> truthy i \<or> \<not> is_str i))
   \<and> (TestAgent_run d i = Inr True \<longleftrightarrow>
      (\<exists>kvs v. d = PDict kvs \<and> map_of kvs ''totalFollowers'' = Some v \<and> truthy v)
       \<and> (\<exists>s. i = PStr s \<and> s \<noteq> []))"
proof (cases d)
  case (PDict kvs)
  show ?thesis
  proof (cases "map_of kvs ''totalFollowers''")
    case None
    with PDict show ?thesis
      by (auto simp: TestAgent_run_def InvalidData_def InvalidInsight_def)
  next
    case (Some v)
    with PDict show ?thesis
      by (cases i) (auto simp: TestAgent_run_def InvalidData_def InvalidInsight_def)
  qed
qed (auto simp: TestAgent_run_def InvalidData_def InvalidInsight_def)

theorem validation_outcomes_witness:
  "TestAgent_run (PDict [(''totalFollowers'', PInt 24583)]) (PStr ''text'') = Inr True
   \<and> TestAgent_run (PDict [(''totalFollowers'', PInt 24583)]) PNone = Inl InvalidInsight
   \<and> TestAgent_run (PDict [(''engagementRate'', PInt 5)]) (PStr ''text'') = Inl InvalidData"
  using validation_outcomes [of "PDict [(''totalFollowers'', PInt 24583)]" "PStr ''text''"]
    validation_outcomes [of "PDict [(''totalFollowers'', PInt 24583)]" PNone]
    validation_outcomes [of "PDict [(''engagementRate'', PInt 5)]" "PStr ''text''"]
  by simp

text \<open>
  Claim C8. For every raw data value in which the follower-count field is present but
  holds a falsy value, the validation stage fails with the invalid-data condition,
  whatever the insight.
\<close>

theorem validation_falsy_follower_count:
  "map_of kvs ''totalFollowers'' = Some v \<Longrightarrow> \<not> truthy v \<Longrightarrow>
   TestAgent_run (PDict kvs) i = Inl InvalidData"
  by (cases kvs) (auto simp: TestAgent_run_def)

theorem validation_falsy_follower_count_witness:
  "TestAgent_run (PDict [(''totalFollowers'', PStr [])]) (PStr ''text'') = Inl InvalidData
   \<and> TestAgent_run (PDict [(''engagementRate'', PInt 5), (''totalFollowers'', PNone)]) (PStr ''text'')
       = Inl InvalidData"
  using validation_falsy_follower_count [of "[(''totalFollowers'', PStr [])]" "PStr []" "PStr ''text''"]
    validation_falsy_follower_count
      [of "[(''engagementRate'', PInt 5), (''totalFollowers'', PNone)]" PNone "PStr ''text''"]
  by simp

section \<open>Properties of the storage service\<close>

text \<open>
  Claim C10. For every user id and every value, \<open>save_snapchat_data\<close> and
  \<open>save_ai_insight\<close> return \<open>True\<close>, and the getter called right after returns the value
  just saved, also when a value was stored for that user id before (last write wins).
\<close>

theorem storage_save_then_get:
  "fst (save_snapchat_data st uid d) = True
   \<and> get_snapchat_data (snd (save_snapchat_data st uid d)) uid = Some d
   \<and> get_snapchat_data (snd (save_snapchat_data (snd (save_snapchat_data st uid d0)) uid d)) uid
       = Some d
   \<and> fst (save_ai_insight st uid t) = True
   \<and> get_ai_insight (snd (save_ai_insight st uid t)) uid = Some t
   \<and> get_ai_insight (snd (save_ai_insight (snd (save_ai_insight st uid t0)) uid t)) uid = Some t"
  by (simp add: save_snapchat_data_def get_snapchat_data_def save_ai_insight_def
      get_ai_insight_def)

end
